theory Spec2Isabelle
  imports Complex_Main
begin

section \<open>Python values, failures and containers\<close>

text \<open>
  The engine computes with Python floats. They are modelled as \<^typ>\<open>real\<close>: sums and
  products are exact, there is no NaN and no infinity apart from the bucket threshold
  below. Every \<^verbatim>\<open>raise\<close> and every out-of-range index of the source is a value
  \<open>Inl e\<close> of the result type \<open>py_error + 'a\<close>.
\<close>

datatype py_error = ValueError string | IndexError | KeyError

text \<open>The class an \<^verbatim>\<open>except\<close> clause dispatches on.\<close>

fun exc_class :: "py_error \<Rightarrow> string" where
  "exc_class (ValueError msg) = ''ValueError''"
| "exc_class IndexError = ''IndexError''"
| "exc_class KeyError = ''KeyError''"

text \<open>
  A \<^verbatim>\<open>dict\<close> is an association list in insertion order whose keys are pairwise
  distinct. \<open>dict_set\<close> is \<^verbatim>\<open>d[k] = v\<close>: an existing key keeps its place, a new key
  goes to the end.
\<close>

type_synonym ('k, 'v) dict = "('k \<times> 'v) list"

fun dict_set :: "('k, 'v) dict \<Rightarrow> 'k \<Rightarrow> 'v \<Rightarrow> ('k, 'v) dict" where
  "dict_set [] k v = [(k, v)]"
| "dict_set ((k', v') # d) k v =
     (if k' = k then (k, v) # d else (k', v') # dict_set d k v)"

definition dict_getitem :: "('k, 'v) dict \<Rightarrow> 'k \<Rightarrow> py_error + 'v" where
  "dict_getitem d k = (case map_of d k of None \<Rightarrow> Inl KeyError | Some v \<Rightarrow> Inr v)"

definition dict_get :: "('k, 'v) dict \<Rightarrow> 'k \<Rightarrow> 'v \<Rightarrow> 'v" where
  "dict_get d k dflt = (case map_of d k of None \<Rightarrow> dflt | Some v \<Rightarrow> v)"

definition dict_values :: "('k, 'v) dict \<Rightarrow> 'v list" where
  "dict_values d = map snd d"

text \<open>A loop that collects one result per element and stops at the first failure.\<close>

fun mapM :: "('a \<Rightarrow> py_error + 'b) \<Rightarrow> 'a list \<Rightarrow> py_error + 'b list" where
  "mapM f [] = Inr []"
| "mapM f (x # xs) =
     (case f x of
        Inl e \<Rightarrow> Inl e
      | Inr y \<Rightarrow> (case mapM f xs of Inl e \<Rightarrow> Inl e | Inr ys \<Rightarrow> Inr (y # ys)))"

definition getitem :: "'a list \<Rightarrow> nat \<Rightarrow> py_error + 'a" where
  "getitem xs i = (if i < length xs then Inr (xs ! i) else Inl IndexError)"

subsection \<open>numpy arrays\<close>

text \<open>
  A one-dimensional array is a list. A two-dimensional array carries its shape and its
  rows; numpy keeps \<open>array_ok\<close> for every array it builds.
\<close>

record ndarray2 =
  nrows :: nat
  ncols :: nat
  cells :: "real list list"

definition array_ok :: "ndarray2 \<Rightarrow> bool" where
  "array_ok a = (length (cells a) = nrows a \<and> list_all (\<lambda>r. length r = ncols a) (cells a))"

definition getitem2 :: "ndarray2 \<Rightarrow> nat \<Rightarrow> nat \<Rightarrow> py_error + real" where
  "getitem2 a i j =
     (if i < nrows a \<and> j < ncols a then Inr (cells a ! i ! j) else Inl IndexError)"

definition arr_sum :: "ndarray2 \<Rightarrow> real" where
  "arr_sum a = sum_list (map sum_list (cells a))"

definition sum_axis1 :: "ndarray2 \<Rightarrow> real list" where
  "sum_axis1 a = map sum_list (cells a)"

definition column :: "ndarray2 \<Rightarrow> nat \<Rightarrow> real list" where
  "column a j = map (\<lambda>r. r ! j) (cells a)"

definition sum_axis0 :: "ndarray2 \<Rightarrow> real list" where
  "sum_axis0 a = map (\<lambda>j. sum_list (column a j)) [0..<ncols a]"

text \<open>\<^verbatim>\<open>a[:, j].sum()\<close> and \<^verbatim>\<open>a[i, :].sum()\<close>.\<close>

definition col_sum :: "ndarray2 \<Rightarrow> nat \<Rightarrow> py_error + real" where
  "col_sum a j = (if j < ncols a then Inr (sum_list (column a j)) else Inl IndexError)"

definition row_sum :: "ndarray2 \<Rightarrow> nat \<Rightarrow> py_error + real" where
  "row_sum a i = (if i < nrows a then Inr (sum_list (cells a ! i)) else Inl IndexError)"

text \<open>Elementwise product and sum of two arrays of one shape.\<close>

definition arr_mul :: "ndarray2 \<Rightarrow> ndarray2 \<Rightarrow> ndarray2" where
  "arr_mul a b = a\<lparr>cells := map2 (map2 (*)) (cells a) (cells b)\<rparr>"

definition arr_add :: "ndarray2 \<Rightarrow> ndarray2 \<Rightarrow> ndarray2" where
  "arr_add a b = a\<lparr>cells := map2 (map2 (+)) (cells a) (cells b)\<rparr>"

definition clip :: "real \<Rightarrow> real \<Rightarrow> real \<Rightarrow> real" where
  "clip x lo hi = min hi (max x lo)"

section \<open>Data structures\<close>

record VegaGrid =
  spot_shift :: real
  moneyness :: "real list"
  expiries :: "string list"
  expiry_years :: "real list"
  grid_values :: ndarray2
  row_totals :: "real list"
  col_totals :: "real list"
  total :: real

record BetaParams =
  spot_vol_beta :: real
  skew_beta :: real
  term_decay :: real
  convexity :: real
  volga_scale :: real
  term_floor :: real

definition BetaParams_default :: BetaParams where
  "BetaParams_default =
     \<lparr>spot_vol_beta = - 0.40, skew_beta = 0.15, term_decay = 0.50, convexity = 2.0,
      volga_scale = 0.15, term_floor = 0.08\<rparr>"

record ManualParams =
  atm_vol_change :: real
  skew_change :: real
  term_multiplier :: real
  volga_scale :: real

text \<open>The defaults of the dataclass fields; the constructor takes them for a field not given.\<close>

definition ManualParams_default :: ManualParams where
  "ManualParams_default =
     \<lparr>atm_vol_change = 0.0, skew_change = 0.1, term_multiplier = 0.5, volga_scale = 0.15\<rparr>"

section \<open>Interpolation engine\<close>

text \<open>
  \<^verbatim>\<open>scipy.interpolate.interp1d\<close> is a library outside the repository: the model takes
  it as the parameter \<open>interp1d\<close>, called with the kind, the sorted shifts, the cell's
  values at these shifts and the point of evaluation.
\<close>

type_synonym interp1d_t = "string \<Rightarrow> real list \<Rightarrow> real list \<Rightarrow> real \<Rightarrow> real"

definition interp_cell ::
  "interp1d_t \<Rightarrow> (real, VegaGrid) dict \<Rightarrow> real list \<Rightarrow> string \<Rightarrow> real \<Rightarrow> nat \<Rightarrow> nat
     \<Rightarrow> py_error + real" where
  "interp_cell interp1d surfaces shifts method clamped i j =
     (case mapM (\<lambda>s. case dict_getitem surfaces s of
                         Inl e \<Rightarrow> Inl e
                       | Inr g \<Rightarrow> getitem2 (grid_values g) i j) shifts of
        Inl e \<Rightarrow> Inl e
      | Inr y_vals \<Rightarrow>
          Inr (if method = ''cubic'' \<and> length shifts \<ge> 4
               then interp1d ''cubic'' shifts y_vals clamped
               else interp1d ''linear'' shifts y_vals clamped))"

definition interpolate_vega_grid ::
  "interp1d_t \<Rightarrow> (real, VegaGrid) dict \<Rightarrow> real \<Rightarrow> string \<Rightarrow> py_error + VegaGrid" where
  "interpolate_vega_grid interp1d surfaces spot_move method =
     (let shifts = sort (map fst surfaces) in
      if length shifts = 0 then Inl (ValueError ''No surfaces provided'')
      else if length shifts = 1 then dict_getitem surfaces (shifts ! 0)
      else
        let clamped = clip spot_move (shifts ! 0) (last shifts) in
        (case map_of surfaces clamped of
           Some grid \<Rightarrow>
             Inr \<lparr>spot_shift = spot_move, moneyness = moneyness grid,
                  expiries = expiries grid, expiry_years = expiry_years grid,
                  grid_values = grid_values grid, row_totals = row_totals grid,
                  col_totals = col_totals grid, total = total grid\<rparr>
         | None \<Rightarrow>
             (case dict_getitem surfaces (shifts ! 0) of
                Inl e \<Rightarrow> Inl e
              | Inr ref \<Rightarrow>
                  let n_strikes = nrows (grid_values ref);
                      n_expiries = ncols (grid_values ref)
                  in (case mapM (\<lambda>i. mapM (\<lambda>j. interp_cell interp1d surfaces shifts method
                                                   clamped i j) [0..<n_expiries])
                                [0..<n_strikes] of
                        Inl e \<Rightarrow> Inl e
                      | Inr rows \<Rightarrow>
                          let interp_values =
                                \<lparr>nrows = n_strikes, ncols = n_expiries, cells = rows\<rparr>
                          in Inr \<lparr>spot_shift = spot_move, moneyness = moneyness ref,
                                  expiries = expiries ref, expiry_years = expiry_years ref,
                                  grid_values = interp_values,
                                  row_totals = sum_axis1 interp_values,
                                  col_totals = sum_axis0 interp_values,
                                  total = arr_sum interp_values\<rparr>))))"

section \<open>Vol scenario models\<close>

definition beta_vol_change :: "real \<Rightarrow> real \<Rightarrow> real \<Rightarrow> BetaParams \<Rightarrow> real \<times> real" where
  "beta_vol_change moneyness' years_to_expiry spot_move params =
     (let dS = spot_move * 100;
          atm_change = spot_vol_beta params * dS + convexity params * dS * dS * 0.01;
          m_diff = moneyness' - 1.0;
          skew_effect = clip (1.0 - skew_beta params * m_diff * sgn (- dS)) 0.5 2.0;
          term_factor = max (term_floor params) (exp (- term_decay params * years_to_expiry));
          dSigma = atm_change * skew_effect * term_factor;
          log_m = ln (max moneyness' 0.01);
          sigma_approx = 0.20;
          volga_factor = min (log_m ^ 2 / (sigma_approx ^ 2 * max years_to_expiry 0.01)) 10.0;
          volga_pnl = 0.5 * volga_factor * dSigma * dSigma * BetaParams.volga_scale params
      in (dSigma, volga_pnl))"

text \<open>The local \<^verbatim>\<open>atm_change\<close> of \<open>beta_vol_change\<close>, as a function of its inputs.\<close>

definition atm_change_of :: "BetaParams \<Rightarrow> real \<Rightarrow> real" where
  "atm_change_of params spot_move =
     (let dS = spot_move * 100
      in spot_vol_beta params * dS + convexity params * dS * dS * 0.01)"

definition manual_vol_change :: "real \<Rightarrow> real \<Rightarrow> ManualParams \<Rightarrow> real \<times> real" where
  "manual_vol_change moneyness' years_to_expiry params =
     (let m_diff = moneyness' - 1.0;
          term_factor = 1.0 / (1.0 + term_multiplier params * sqrt years_to_expiry);
          dSigma = (atm_vol_change params + skew_change params * m_diff) * term_factor;
          log_m = ln (max moneyness' 0.01);
          sigma_approx = 0.20;
          volga_factor = min (log_m ^ 2 / (sigma_approx ^ 2 * max years_to_expiry 0.01)) 10.0;
          volga_pnl = 0.5 * volga_factor * dSigma * dSigma * ManualParams.volga_scale params
      in (dSigma, volga_pnl))"

definition compute_vol_change_grid ::
  "VegaGrid \<Rightarrow> real \<Rightarrow> string \<Rightarrow> BetaParams option \<Rightarrow> ManualParams option
     \<Rightarrow> py_error + (ndarray2 \<times> ndarray2)" where
  "compute_vol_change_grid grid spot_move vol_mode beta_params manual_params =
     (let bp = (case beta_params of None \<Rightarrow> BetaParams_default | Some p \<Rightarrow> p);
          mp = (case manual_params of None \<Rightarrow> ManualParams_default | Some p \<Rightarrow> p);
          n = nrows (grid_values grid);
          m = ncols (grid_values grid)
      in (case mapM (\<lambda>i. mapM (\<lambda>j.
                      (case getitem (moneyness grid) i of
                         Inl e \<Rightarrow> Inl e
                       | Inr mi \<Rightarrow>
                           (case getitem (expiry_years grid) j of
                              Inl e \<Rightarrow> Inl e
                            | Inr yj \<Rightarrow>
                                Inr (if vol_mode = ''beta''
                                     then beta_vol_change mi yj spot_move bp
                                     else manual_vol_change mi yj mp)))) [0..<m]) [0..<n] of
            Inl e \<Rightarrow> Inl e
          | Inr nodes \<Rightarrow>
              Inr (\<lparr>nrows = n, ncols = m, cells = map (map fst) nodes\<rparr>,
                   \<lparr>nrows = n, ncols = m, cells = map (map snd) nodes\<rparr>)))"

section \<open>P&L computation\<close>

subsection \<open>Dates\<close>

text \<open>
  \<^verbatim>\<open>datetime.date\<close> with the proleptic Gregorian ordinal of the standard library;
  the difference of two dates is the difference of their ordinals.
\<close>

record date =
  year :: int
  month :: int
  day :: int

definition is_leap :: "int \<Rightarrow> bool" where
  "is_leap y = (y mod 4 = 0 \<and> (y mod 100 \<noteq> 0 \<or> y mod 400 = 0))"

definition days_before_year :: "int \<Rightarrow> int" where
  "days_before_year y = (let y1 = y - 1 in y1 * 365 + y1 div 4 - y1 div 100 + y1 div 400)"

definition days_before_month :: "int \<Rightarrow> int \<Rightarrow> int" where
  "days_before_month y m =
     sum_list (take (nat (m - 1)) [31, 28, 31, 30, 31, 30, 31, 31, 30, 31, 30, 31])
       + (if m > 2 \<and> is_leap y then 1 else 0)"

definition toordinal :: "date \<Rightarrow> int" where
  "toordinal d = days_before_year (year d) + days_before_month (year d) (month d) + day d"

definition REFERENCE_DATE :: date where
  "REFERENCE_DATE = \<lparr>year = 2026, month = 2, day = 6\<rparr>"

text \<open>
  \<^verbatim>\<open>pd.Timestamp(s)\<close> parses a date label; pandas is outside the repository, so the
  parser is the parameter \<open>timestamp\<close>, which fails on a label it cannot read. Only the
  calendar day of the result is used.
\<close>

type_synonym timestamp_t = "string \<Rightarrow> py_error + date"

subsection \<open>Tenor buckets\<close>

datatype threshold = Days int | Infinity

fun le_threshold :: "int \<Rightarrow> threshold \<Rightarrow> bool" where
  "le_threshold d (Days t) = (d \<le> t)"
| "le_threshold d Infinity = True"

definition EXPIRY_BUCKET_THRESHOLDS :: "(threshold \<times> string) list" where
  "EXPIRY_BUCKET_THRESHOLDS =
     [(Days 30, ''0-1M''), (Days 90, ''1-3M''), (Days 180, ''3-6M''), (Days 365, ''6-12M''),
      (Days 730, ''1-2Y''), (Infinity, ''2Y+'')]"

fun first_bucket :: "int \<Rightarrow> (threshold \<times> string) list \<Rightarrow> string" where
  "first_bucket days [] = ''2Y+''"
| "first_bucket days ((t, label) # rest) =
     (if le_threshold days t then label else first_bucket days rest)"

definition classify_expiry :: "timestamp_t \<Rightarrow> string \<Rightarrow> date option \<Rightarrow> py_error + string" where
  "classify_expiry timestamp expiry_str ref_date =
     (let ref = (case ref_date of None \<Rightarrow> REFERENCE_DATE | Some d \<Rightarrow> d)
      in (case timestamp expiry_str of
            Inl e \<Rightarrow> Inl e
          | Inr exp_date \<Rightarrow>
              let days = toordinal exp_date - toordinal ref
              in Inr (first_bucket days EXPIRY_BUCKET_THRESHOLDS)))"

subsection \<open>The pipeline\<close>

datatype param_value = PStr string | PNum real

record PnLResult =
  total_pnl :: real
  pnl_grid :: ndarray2
  pnl_by_expiry :: "(string, real) dict"
  pnl_by_bucket :: "(string, real) dict"
  pnl_by_moneyness :: "(real, real) dict"
  vega_grid :: VegaGrid
  vol_change_grid :: ndarray2
  spot_move :: real
  vol_params :: "(string, param_value) dict"

fun by_expiry_loop ::
  "ndarray2 \<Rightarrow> (nat \<times> string) list \<Rightarrow> (string, real) dict \<Rightarrow> py_error + (string, real) dict" where
  "by_expiry_loop pg [] d = Inr d"
| "by_expiry_loop pg ((j, ex) # rest) d =
     (case col_sum pg j of
        Inl e \<Rightarrow> Inl e
      | Inr c \<Rightarrow> by_expiry_loop pg rest (dict_set d ex c))"

fun by_bucket_loop ::
  "timestamp_t \<Rightarrow> ndarray2 \<Rightarrow> (nat \<times> string) list \<Rightarrow> (string, real) dict
     \<Rightarrow> py_error + (string, real) dict" where
  "by_bucket_loop timestamp pg [] d = Inr d"
| "by_bucket_loop timestamp pg ((j, ex) # rest) d =
     (case classify_expiry timestamp ex None of
        Inl e \<Rightarrow> Inl e
      | Inr bucket \<Rightarrow>
          (case col_sum pg j of
             Inl e \<Rightarrow> Inl e
           | Inr c \<Rightarrow> by_bucket_loop timestamp pg rest (dict_set d bucket (dict_get d bucket 0.0 + c))))"

fun by_moneyness_loop ::
  "ndarray2 \<Rightarrow> (nat \<times> real) list \<Rightarrow> (real, real) dict \<Rightarrow> py_error + (real, real) dict" where
  "by_moneyness_loop pg [] d = Inr d"
| "by_moneyness_loop pg ((i, m) # rest) d =
     (case row_sum pg i of
        Inl e \<Rightarrow> Inl e
      | Inr c \<Rightarrow> by_moneyness_loop pg rest (dict_set d m c))"

definition compute_pnl ::
  "interp1d_t \<Rightarrow> timestamp_t \<Rightarrow> (real, VegaGrid) dict \<Rightarrow> real \<Rightarrow> string \<Rightarrow> BetaParams option
     \<Rightarrow> ManualParams option \<Rightarrow> string \<Rightarrow> py_error + PnLResult" where
  "compute_pnl interp1d timestamp surfaces spot_move' vol_mode beta_params manual_params
     interp_method =
     (let bp = (case beta_params of None \<Rightarrow> BetaParams_default | Some p \<Rightarrow> p);
          mp = (case manual_params of None \<Rightarrow> ManualParams_default | Some p \<Rightarrow> p)
      in (case interpolate_vega_grid interp1d surfaces spot_move' interp_method of
            Inl e \<Rightarrow> Inl e
          | Inr vg \<Rightarrow>
      (case compute_vol_change_grid vg spot_move' vol_mode (Some bp) (Some mp) of
            Inl e \<Rightarrow> Inl e
          | Inr (vol_changes, volga_grid) \<Rightarrow>
      let pg = arr_add (arr_mul (grid_values vg) vol_changes)
                       (arr_mul (grid_values vg) volga_grid);
          tot = arr_sum pg
      in (case by_expiry_loop pg (enumerate 0 (expiries vg)) [] of
            Inl e \<Rightarrow> Inl e
          | Inr by_expiry \<Rightarrow>
      (case by_bucket_loop timestamp pg (enumerate 0 (expiries vg)) [] of
            Inl e \<Rightarrow> Inl e
          | Inr by_bucket \<Rightarrow>
      (case by_moneyness_loop pg (enumerate 0 (moneyness vg)) [] of
            Inl e \<Rightarrow> Inl e
          | Inr by_moneyness \<Rightarrow>
      let vp = (if vol_mode = ''beta''
                then [(''mode'', PStr ''beta''),
                      (''spot_vol_beta'', PNum (spot_vol_beta bp)),
                      (''skew_beta'', PNum (skew_beta bp)),
                      (''term_decay'', PNum (term_decay bp)),
                      (''convexity'', PNum (convexity bp))]
                else [(''mode'', PStr ''manual''),
                      (''atm_vol_change'', PNum (atm_vol_change mp)),
                      (''skew_change'', PNum (skew_change mp)),
                      (''term_multiplier'', PNum (term_multiplier mp))])
      in Inr \<lparr>total_pnl = tot, pnl_grid = pg, pnl_by_expiry = by_expiry,
              pnl_by_bucket = by_bucket, pnl_by_moneyness = by_moneyness, vega_grid = vg,
              vol_change_grid = vol_changes, spot_move = spot_move', vol_params = vp\<rparr>))))))"

section \<open>Scenario matrix\<close>

text \<open>
  The format \<^verbatim>\<open>{dv:+.0f}\<close>: the sign, then the value rounded to an integer, halves
  to the even neighbour.
\<close>

definition round_half_even :: "real \<Rightarrow> int" where
  "round_half_even x =
     (let f = \<lfloor>x\<rfloor>; d = x - of_int f
      in if d < 1 / 2 then f else if d > 1 / 2 then f + 1 else if even f then f else f + 1)"

fun str_nat :: "nat \<Rightarrow> string" where
  "str_nat n =
     (if n < 10 then [char_of (48 + n)] else str_nat (n div 10) @ [char_of (48 + n mod 10)])"

declare str_nat.simps [simp del]

definition fmt_signed_0f :: "real \<Rightarrow> string" where
  "fmt_signed_0f x = (if x < 0 then ''-'' else ''+'') @ str_nat (nat \<bar>round_half_even x\<bar>)"

text \<open>
  \<^verbatim>\<open>[round(s, 4) for s in np.arange(-0.075, 0.076, 0.005)]\<close>: 31 points from -7.5% in
  steps of 0.5%.
\<close>

definition default_spot_moves :: "real list" where
  "default_spot_moves = map (\<lambda>k. - 0.075 + 0.005 * real k) [0..<31]"

definition default_vol_changes :: "real list" where
  "default_vol_changes = [- 5, - 3, - 1, 0, 1, 3, 5]"

text \<open>A row of the returned frame is the \<^verbatim>\<open>dict\<close> the loop built for it.\<close>

definition beta_row ::
  "interp1d_t \<Rightarrow> timestamp_t \<Rightarrow> (real, VegaGrid) dict \<Rightarrow> BetaParams \<Rightarrow> real
     \<Rightarrow> py_error + (string, real) dict" where
  "beta_row interp1d timestamp surfaces beta_params sm =
     (case compute_pnl interp1d timestamp surfaces sm ''beta'' (Some beta_params) None
             ''linear'' of
        Inl e \<Rightarrow> Inl e
      | Inr r \<Rightarrow>
          Inr (fold (\<lambda>(bucket, pnl) row. dict_set row (''pnl_'' @ bucket) pnl)
                    (pnl_by_bucket r)
                    [(''spot_move'', sm), (''total_pnl'', total_pnl r)]))"

fun manual_row_loop ::
  "interp1d_t \<Rightarrow> timestamp_t \<Rightarrow> (real, VegaGrid) dict \<Rightarrow> real \<Rightarrow> ManualParams \<Rightarrow> real list
     \<Rightarrow> (string, real) dict \<Rightarrow> py_error + (string, real) dict" where
  "manual_row_loop interp1d timestamp surfaces sm manual_params [] row = Inr row"
| "manual_row_loop interp1d timestamp surfaces sm manual_params (dv # rest) row =
     (let mp = ManualParams_default
                 \<lparr>atm_vol_change := dv,
                  skew_change := skew_change manual_params,
                  term_multiplier := term_multiplier manual_params\<rparr>
      in (case compute_pnl interp1d timestamp surfaces sm ''manual'' None (Some mp)
                 ''linear'' of
            Inl e \<Rightarrow> Inl e
          | Inr r \<Rightarrow>
              manual_row_loop interp1d timestamp surfaces sm manual_params rest
                (dict_set row (''vol_'' @ fmt_signed_0f dv) (total_pnl r))))"

definition compute_scenario_matrix ::
  "interp1d_t \<Rightarrow> timestamp_t \<Rightarrow> (real, VegaGrid) dict \<Rightarrow> real list option \<Rightarrow> string
     \<Rightarrow> BetaParams option \<Rightarrow> ManualParams option \<Rightarrow> real list option
     \<Rightarrow> py_error + (string, real) dict list" where
  "compute_scenario_matrix interp1d timestamp surfaces spot_moves vol_mode beta_params
     manual_params vol_changes_override =
     (let sms = (case spot_moves of None \<Rightarrow> default_spot_moves | Some l \<Rightarrow> l);
          bp = (case beta_params of None \<Rightarrow> BetaParams_default | Some p \<Rightarrow> p);
          mp = (case manual_params of None \<Rightarrow> ManualParams_default | Some p \<Rightarrow> p)
      in if vol_mode = ''beta''
         then mapM (beta_row interp1d timestamp surfaces bp) sms
         else
           let overrides =
                 (case vol_changes_override of None \<Rightarrow> default_vol_changes | Some l \<Rightarrow> l)
           in mapM (\<lambda>sm. manual_row_loop interp1d timestamp surfaces sm mp overrides
                            [(''spot_move'', sm)]) sms)"

section \<open>CSV parsing\<close>

subsection \<open>Shift from the file name\<close>

definition FILE_SHIFT_MAP :: "(string, real) dict" where
  "FILE_SHIFT_MAP =
     [(''down_75'', - 0.075), (''down_50'', - 0.05), (''down_25'', - 0.025), (''atm'', 0.0),
      (''up_25'', 0.025), (''up_50'', 0.05), (''up_75'', 0.075)]"

fun split_on :: "char \<Rightarrow> string \<Rightarrow> string list" where
  "split_on sep [] = [[]]"
| "split_on sep (c # cs) =
     (if c = sep then [] # split_on sep cs
      else (case split_on sep cs of [] \<Rightarrow> [[c]] | w # ws \<Rightarrow> (c # w) # ws))"

text \<open>\<^verbatim>\<open>Path(p).name\<close> and \<^verbatim>\<open>Path(p).stem\<close> of the standard library, for POSIX paths.\<close>

definition path_name :: "string \<Rightarrow> string" where
  "path_name p =
     (case filter (\<lambda>c. c \<noteq> [] \<and> c \<noteq> ''.'') (split_on CHR ''/'' p) of
        [] \<Rightarrow> []
      | c # cs \<Rightarrow> last (c # cs))"

definition rfind_dot :: "string \<Rightarrow> nat option" where
  "rfind_dot s =
     (case dropWhile (\<lambda>c. c \<noteq> CHR ''.'') (rev s) of [] \<Rightarrow> None | c # r \<Rightarrow> Some (length r))"

definition path_stem :: "string \<Rightarrow> string" where
  "path_stem p =
     (let name = path_name p
      in (case rfind_dot name of
            None \<Rightarrow> name
          | Some i \<Rightarrow> if 0 < i \<and> i + 1 < length name then take i name else name))"

definition lower_char :: "char \<Rightarrow> char" where
  "lower_char c =
     (let n = (of_char c :: nat) in if 65 \<le> n \<and> n \<le> 90 then char_of (n + 32) else c)"

definition lower :: "string \<Rightarrow> string" where
  "lower s = map lower_char s"

text \<open>\<^verbatim>\<open>key in name\<close> on strings: \<open>key\<close> occurs in \<open>name\<close> as a contiguous piece.\<close>

fun contains :: "string \<Rightarrow> string \<Rightarrow> bool" where
  "contains [] key = (key = [])"
| "contains (c # cs) key = (take (length key) (c # cs) = key \<or> contains cs key)"

fun first_shift :: "string \<Rightarrow> (string, real) dict \<Rightarrow> real option" where
  "first_shift name [] = None"
| "first_shift name ((key, shift) # rest) =
     (if contains name key then Some shift else first_shift name rest)"

definition detect_shift_from_filename :: "string \<Rightarrow> real option" where
  "detect_shift_from_filename filename =
     (let name = lower (path_stem filename) in first_shift name FILE_SHIFT_MAP)"

subsection \<open>The table\<close>

text \<open>
  The frame \<^verbatim>\<open>pd.read_csv(filepath, header=0, index_col=0)\<close> returns: the column
  labels, the index (the first column of the file; \<open>None\<close> is a missing label, NaN) and
  one row of cells per index entry. pandas gives every frame \<open>frame_ok\<close>.
\<close>

record DataFrame =
  columns :: "string list"
  index :: "real option list"
  rows :: "real list list"

definition frame_ok :: "DataFrame \<Rightarrow> bool" where
  "frame_ok df =
     (distinct (columns df) \<and> length (rows df) = length (index df) \<and>
      list_all (\<lambda>r. length r = length (columns df)) (rows df))"

text \<open>\<^verbatim>\<open>df[name]\<close>, \<^verbatim>\<open>df.drop(columns=[name])\<close> and selection by a boolean mask.\<close>

definition frame_column :: "DataFrame \<Rightarrow> string \<Rightarrow> real list" where
  "frame_column df name =
     (let p = length (takeWhile (\<lambda>c. c \<noteq> name) (columns df)) in map (\<lambda>r. r ! p) (rows df))"

definition drop_column :: "DataFrame \<Rightarrow> string \<Rightarrow> DataFrame" where
  "drop_column df name =
     df\<lparr>columns := filter (\<lambda>c. c \<noteq> name) (columns df),
        rows := map (\<lambda>r. map snd (filter (\<lambda>(c, v). c \<noteq> name) (zip (columns df) r))) (rows df)\<rparr>"

definition select :: "bool list \<Rightarrow> 'a list \<Rightarrow> 'a list" where
  "select msk xs = map snd (filter fst (zip msk xs))"

definition is_space :: "char \<Rightarrow> bool" where
  "is_space c = (let n = (of_char c :: nat) in (9 \<le> n \<and> n \<le> 13) \<or> (28 \<le> n \<and> n \<le> 32))"

definition strip :: "string \<Rightarrow> string" where
  "strip s = rev (dropWhile is_space (rev (dropWhile is_space s)))"

definition years_to_expiry_of :: "timestamp_t \<Rightarrow> date \<Rightarrow> string \<Rightarrow> py_error + real" where
  "years_to_expiry_of timestamp ref e =
     (case timestamp e of
        Inl er \<Rightarrow> Inl er
      | Inr d \<Rightarrow> Inr (max (real_of_int (toordinal d - toordinal ref) / 365.25) (1 / 365.25)))"

definition parse_csv ::
  "timestamp_t \<Rightarrow> DataFrame \<Rightarrow> string \<Rightarrow> real option \<Rightarrow> date option \<Rightarrow> py_error + VegaGrid" where
  "parse_csv timestamp frame filepath spot_shift' ref_date =
     (let ref = (case ref_date of None \<Rightarrow> REFERENCE_DATE | Some d \<Rightarrow> d)
      in (case (case spot_shift' of
                  Some s \<Rightarrow> Inr s
                | None \<Rightarrow>
                    (case detect_shift_from_filename filepath of
                       Some s \<Rightarrow> Inr s
                     | None \<Rightarrow>
                         Inl (ValueError (''Cannot detect spot shift from filename: '' @ filepath)))) of
            Inl e \<Rightarrow> Inl e
          | Inr shift \<Rightarrow>
      let has_total = (''TOTAL'' \<in> set (columns frame));
          row_totals_col = (if has_total then Some (frame_column frame ''TOTAL'') else None);
          df = (if has_total then drop_column frame ''TOTAL'' else frame);
          notna = map (\<lambda>x. x \<noteq> None) (index df);
          data_rows = select notna (rows df);
          summary_row = select (map Not notna) (rows df);
          mny = List.map_filter (\<lambda>x. x) (index df);
          expiry_strs = map strip (columns df)
      in (case mapM (years_to_expiry_of timestamp ref) expiry_strs of
            Inl e \<Rightarrow> Inl e
          | Inr years \<Rightarrow>
      let vals = \<lparr>nrows = length data_rows, ncols = length (columns df), cells = data_rows\<rparr>;
          rtot = (case row_totals_col of
                    Some col \<Rightarrow> select notna col
                  | None \<Rightarrow> sum_axis1 vals);
          ctot = (case summary_row of r # rest \<Rightarrow> r | [] \<Rightarrow> sum_axis0 vals)
      in Inr \<lparr>spot_shift = shift, moneyness = mny, expiries = expiry_strs,
              expiry_years = years, grid_values = vals, row_totals = rtot,
              col_totals = ctot, total = sum_list rtot\<rparr>)))"

section \<open>Example inputs\<close>

text \<open>
  The piecewise-linear interpolant over sorted nodes, as \<^verbatim>\<open>interp1d\<close> evaluates kind
  \<^verbatim>\<open>linear\<close>: the interval is found by \<^verbatim>\<open>searchsorted\<close>, and the first or last interval
  serves a point outside the nodes. It is the interpolator of the examples below.
\<close>

definition searchsorted :: "real list \<Rightarrow> real \<Rightarrow> nat" where
  "searchsorted xs v = length (takeWhile (\<lambda>x. x < v) xs)"

definition linear_interp1d :: interp1d_t where
  "linear_interp1d kind xs ys v =
     (let hi = min (max (searchsorted xs v) 1) (length xs - 1);
          lo = hi - 1;
          slope = (ys ! hi - ys ! lo) / (xs ! hi - xs ! lo)
      in slope * (v - xs ! lo) + ys ! lo)"

text \<open>A date parser that reads the two labels of the example grid and fails on any other.\<close>

definition example_timestamp :: timestamp_t where
  "example_timestamp s =
     (if s = ''2026-03-08'' then Inr \<lparr>year = 2026, month = 3, day = 8\<rparr>
      else if s = ''2026-08-05'' then Inr \<lparr>year = 2026, month = 8, day = 5\<rparr>
      else Inl (ValueError s))"

definition example_values :: ndarray2 where
  "example_values = \<lparr>nrows = 2, ncols = 2, cells = [[100, 200], [150, 250]]\<rparr>"

definition example_grid :: "real \<Rightarrow> VegaGrid" where
  "example_grid shift =
     \<lparr>spot_shift = shift, moneyness = [0.9, 1.1],
      expiries = [''2026-03-08'', ''2026-08-05''],
      expiry_years = [30 / 365.25, 180 / 365.25],
      grid_values = example_values,
      row_totals = [300, 400], col_totals = [250, 450], total = 700\<rparr>"

definition example_surfaces :: "(real, VegaGrid) dict" where
  "example_surfaces = [(- 0.05, example_grid (- 0.05)), (0.05, example_grid 0.05)]"

text \<open>
  The totals a table supplies: the cells of its \<^verbatim>\<open>TOTAL\<close> column in the rows that
  carry a moneyness label, and the cells of its first row without a label, the
  \<^verbatim>\<open>TOTAL\<close> cell left out.
\<close>

definition total_position :: "DataFrame \<Rightarrow> nat" where
  "total_position df = length (takeWhile (\<lambda>c. c \<noteq> ''TOTAL'') (columns df))"

definition supplied_row_totals :: "DataFrame \<Rightarrow> real list" where
  "supplied_row_totals df =
     map (\<lambda>(ix, r). r ! total_position df)
         (filter (\<lambda>(ix, r). ix \<noteq> None) (zip (index df) (rows df)))"

definition supplied_col_totals :: "DataFrame \<Rightarrow> real list" where
  "supplied_col_totals df =
     (case filter (\<lambda>(ix, r). ix = None) (zip (index df) (rows df)) of
        [] \<Rightarrow> []
      | (ix, r) # rest \<Rightarrow> take (total_position df) r @ drop (Suc (total_position df)) r)"

text \<open>
  Two tables with both kinds of totals: the example grid with its true sums, and a
  table whose summary row disagrees with its cells.
\<close>

definition example_frame :: DataFrame where
  "example_frame =
     \<lparr>columns = [''2026-03-08'', ''2026-08-05'', ''TOTAL''],
      index = [Some 0.9, Some 1.1, None],
      rows = [[100, 200, 300], [150, 250, 400], [250, 450, 700]]\<rparr>"

definition inconsistent_frame :: DataFrame where
  "inconsistent_frame =
     \<lparr>columns = [''2026-03-08'', ''TOTAL''],
      index = [Some 1.0, None],
      rows = [[1, 1], [5, 5]]\<rparr>"

text \<open>
  The invariants of the data model: the axes of a grid have the lengths of its matrix,
  and \<open>labels_distinct\<close> says that no expiry label and no moneyness value occurs twice.
\<close>

definition grid_ok :: "VegaGrid \<Rightarrow> bool" where
  "grid_ok g =
     (array_ok (grid_values g) \<and>
      length (moneyness g) = nrows (grid_values g) \<and>
      length (expiries g) = ncols (grid_values g))"

definition labels_distinct :: "VegaGrid \<Rightarrow> bool" where
  "labels_distinct g = (distinct (expiries g) \<and> distinct (moneyness g))"

text \<open>Manual parameters for the examples, and a grid whose two expiries share one label.\<close>

definition example_manual :: ManualParams where
  "example_manual =
     \<lparr>atm_vol_change = 1, skew_change = 0.1, term_multiplier = 0.5, volga_scale = 0.15\<rparr>"

definition flat_manual :: ManualParams where
  "flat_manual =
     \<lparr>atm_vol_change = 1, skew_change = 0.1, term_multiplier = 0, volga_scale = 0.15\<rparr>"

definition repeated_label_grid :: VegaGrid where
  "repeated_label_grid =
     \<lparr>spot_shift = 0, moneyness = [1.0],
      expiries = [''2026-03-08'', ''2026-03-08''],
      expiry_years = [30 / 365.25, 30 / 365.25],
      grid_values = \<lparr>nrows = 1, ncols = 2, cells = [[100, 200]]\<rparr>,
      row_totals = [300], col_totals = [100, 200], total = 300\<rparr>"

text \<open>
  A one-cell grid far out of the money, where the volga factor reaches its cap, and base
  parameters for the manual sweep with a \<open>volga_scale\<close> other than the default.
\<close>

definition deep_otm_grid :: VegaGrid where
  "deep_otm_grid =
     \<lparr>spot_shift = 0, moneyness = [2.0], expiries = [''2026-03-08''],
      expiry_years = [30 / 365.25],
      grid_values = \<lparr>nrows = 1, ncols = 1, cells = [[100]]\<rparr>,
      row_totals = [100], col_totals = [100], total = 100\<rparr>"

definition base_manual :: ManualParams where
  "base_manual =
     \<lparr>atm_vol_change = 0, skew_change = 0, term_multiplier = 0, volga_scale = 0.3\<rparr>"

section \<open>Interpolation: the three return paths\<close>

lemma sort_nth0_Min:
  fixes xs :: "'a :: linorder list"
  assumes "xs \<noteq> []"
  shows "sort xs ! 0 = Min (set xs)"
proof -
  obtain y ys where ys: "sort xs = y # ys"
    using assms by (cases "sort xs") (auto dest: arg_cong[where f = length])
  have "sorted (y # ys)"
    using ys sorted_sort by metis
  then have le: "\<forall>z \<in> set (y # ys). y \<le> z"
    by auto
  have "set (y # ys) = set xs"
    using ys by (metis set_sort)
  then have "Min (set xs) = y"
    using le by (intro Min_eqI) auto
  then show ?thesis
    using ys by simp
qed

lemma sorted_le_last:
  fixes ys :: "'a :: linorder list"
  shows "sorted ys \<Longrightarrow> z \<in> set ys \<Longrightarrow> z \<le> last ys"
  by (induction ys) auto

lemma sort_last_Max:
  fixes xs :: "'a :: linorder list"
  assumes "xs \<noteq> []"
  shows "last (sort xs) = Max (set xs)"
proof -
  have ne: "sort xs \<noteq> []"
    using assms by (auto dest: arg_cong[where f = length])
  have le: "\<forall>z \<in> set xs. z \<le> last (sort xs)"
    using sorted_le_last[of "sort xs"] by simp
  have "last (sort xs) \<in> set xs"
    using last_in_set[OF ne] by simp
  then have "Max (set xs) = last (sort xs)"
    using le by (intro Max_eqI) auto
  then show ?thesis
    by simp
qed

text \<open>
  With two or more surfaces, a request whose clamped value is a key returns that surface
  under the label of the request.
\<close>

lemma exact_match_relabels:
  assumes "2 \<le> length surfaces"
    and "map_of surfaces (clip s (Min (fst ` set surfaces)) (Max (fst ` set surfaces))) = Some g"
  shows "interpolate_vega_grid interp1d surfaces s method = Inr (g\<lparr>spot_shift := s\<rparr>)"
proof -
  have ne: "map fst surfaces \<noteq> []"
    using assms(1) by auto
  have l: "length (sort (map fst surfaces)) = length surfaces"
    by simp
  have n0: "length surfaces \<noteq> 0" "length surfaces \<noteq> 1"
    using assms(1) by auto
  show ?thesis
    using assms(2) sort_nth0_Min[OF ne] sort_last_Max[OF ne] n0
    unfolding interpolate_vega_grid_def Let_def l
    by simp
qed

text \<open>
  C1. With exactly one surface loaded, \<open>interpolate_vega_grid\<close> returns, for any
  requested spot move, the stored surface as it is: the values matrix is retained, and
  so is the surface's own \<open>spot_shift\<close> label, which the requested move does not
  overwrite.
\<close>

theorem single_surface_returned_as_is:
  "interpolate_vega_grid interp1d [(k, g)] s method = Inr g"
  by (simp add: interpolate_vega_grid_def dict_getitem_def)

text \<open>
  C2. A single surface at shift \<open>k\<close> and a request \<open>s\<close>: the value of \<open>s\<close> clamped to
  the range of the shifts is the key \<open>k\<close>, and the grid returned carries the values of
  the surface and the label of the surface, not the requested move.
\<close>

theorem exact_match_single_surface_label:
  "clip s k k = k \<and>
   (\<exists>g'. interpolate_vega_grid interp1d [(k, g)] s method = Inr g' \<and>
          grid_values g' = grid_values g \<and> spot_shift g' = spot_shift g)"
  by (simp add: interpolate_vega_grid_def dict_getitem_def clip_def)

text \<open>
  C3 (amended). With at least two surfaces and a requested move \<open>s\<close> strictly outside
  the range of the shifts, the result for \<open>s\<close> and the result for the nearest boundary
  shift \<open>b\<close> are the same surface, the one stored at \<open>b\<close>, and differ only in the
  \<open>spot_shift\<close> label: each carries the move that was requested.
\<close>

theorem clamping_agrees_up_to_label:
  assumes "2 \<le> length surfaces"
    and "s < Min (fst ` set surfaces) \<or> Max (fst ` set surfaces) < s"
  shows "\<exists>g. map_of surfaces
               (if s < Min (fst ` set surfaces) then Min (fst ` set surfaces)
                else Max (fst ` set surfaces)) = Some g \<and>
             interpolate_vega_grid interp1d surfaces s method = Inr (g\<lparr>spot_shift := s\<rparr>) \<and>
             interpolate_vega_grid interp1d surfaces
               (if s < Min (fst ` set surfaces) then Min (fst ` set surfaces)
                else Max (fst ` set surfaces)) method =
               Inr (g\<lparr>spot_shift := (if s < Min (fst ` set surfaces)
                                       then Min (fst ` set surfaces)
                                       else Max (fst ` set surfaces))\<rparr>)"
proof -
  define lo where "lo = Min (fst ` set surfaces)"
  define hi where "hi = Max (fst ` set surfaces)"
  define b where "b = (if s < lo then lo else hi)"
  have fin: "finite (fst ` set surfaces)" and ne: "fst ` set surfaces \<noteq> {}"
    using assms(1) by auto
  have lohi: "lo \<le> hi"
    unfolding lo_def hi_def using fin ne by simp
  have "lo \<in> fst ` set surfaces" "hi \<in> fst ` set surfaces"
    unfolding lo_def hi_def using Min_in[OF fin ne] Max_in[OF fin ne] by auto
  then have "b \<in> fst ` set surfaces"
    unfolding b_def by simp
  then have "map_of surfaces b \<noteq> None"
    by (simp add: map_of_eq_None_iff)
  then obtain g where g: "map_of surfaces b = Some g"
    by auto
  have out: "s < lo \<or> hi < s"
    using assms(2) unfolding lo_def hi_def .
  have c1: "clip s lo hi = b"
    using out lohi unfolding b_def clip_def by auto
  have c2: "clip b lo hi = b"
    using lohi unfolding b_def clip_def by auto
  have r1: "interpolate_vega_grid interp1d surfaces s method = Inr (g\<lparr>spot_shift := s\<rparr>)"
    using exact_match_relabels[OF assms(1), of s g interp1d "method"] g c1
    unfolding lo_def hi_def by simp
  have r2: "interpolate_vega_grid interp1d surfaces b method = Inr (g\<lparr>spot_shift := b\<rparr>)"
    using exact_match_relabels[OF assms(1), of b g interp1d "method"] g c2
    unfolding lo_def hi_def by simp
  have "map_of surfaces b = Some g \<and>
        interpolate_vega_grid interp1d surfaces s method = Inr (g\<lparr>spot_shift := s\<rparr>) \<and>
        interpolate_vega_grid interp1d surfaces b method = Inr (g\<lparr>spot_shift := b\<rparr>)"
    using g r1 r2 by simp
  then show ?thesis
    unfolding b_def lo_def hi_def by (rule exI)
qed

lemma example_keys:
  "Min (fst ` set example_surfaces) = - 0.05" "Max (fst ` set example_surfaces) = 0.05"
  by (simp_all add: example_surfaces_def)

text \<open>
  The example store has surfaces at -5% and +5%; a request of +10% lies beyond the upper
  boundary.
\<close>

theorem clamping_agrees_up_to_label_witness:
  "2 \<le> length example_surfaces \<and>
   Max (fst ` set example_surfaces) < 0.1 \<and>
   interpolate_vega_grid linear_interp1d example_surfaces 0.1 ''linear'' =
     Inr (example_grid 0.1) \<and>
   interpolate_vega_grid linear_interp1d example_surfaces 0.05 ''linear'' =
     Inr (example_grid 0.05)"
proof -
  have l: "2 \<le> length example_surfaces"
    by (simp add: example_surfaces_def)
  have o: "0.1 < Min (fst ` set example_surfaces) \<or> Max (fst ` set example_surfaces) < (0.1 :: real)"
    by (simp add: example_keys)
  have m: "map_of example_surfaces 0.05 = Some (example_grid 0.05)"
    by (simp add: example_surfaces_def)
  show ?thesis
    using clamping_agrees_up_to_label[OF l o, of linear_interp1d "''linear''"] l m
    by (simp add: example_keys example_grid_def)
qed

text \<open>
  C3 as stated fails: the result for +10% is not the result for the boundary +5%, since
  the labels differ.
\<close>

theorem clamping_same_result_counterexample:
  "2 \<le> length example_surfaces \<and>
   Max (fst ` set example_surfaces) = 0.05 \<and>
   interpolate_vega_grid linear_interp1d example_surfaces 0.1 ''linear'' \<noteq>
   interpolate_vega_grid linear_interp1d example_surfaces 0.05 ''linear''"
proof -
  have l: "2 \<le> length example_surfaces"
    by (simp add: example_surfaces_def)
  have m1: "map_of example_surfaces (clip 0.1 (Min (fst ` set example_surfaces))
              (Max (fst ` set example_surfaces))) = Some (example_grid 0.05)"
    by (simp add: example_keys clip_def) (simp add: example_surfaces_def)
  have m2: "map_of example_surfaces (clip 0.05 (Min (fst ` set example_surfaces))
              (Max (fst ` set example_surfaces))) = Some (example_grid 0.05)"
    by (simp add: example_keys clip_def) (simp add: example_surfaces_def)
  show ?thesis
    using exact_match_relabels[OF l m1, of linear_interp1d "''linear''"]
      exact_match_relabels[OF l m2, of linear_interp1d "''linear''"] l
    by (simp add: example_keys example_grid_def)
qed

section \<open>Tenor buckets\<close>

text \<open>
  C5. \<open>classify_expiry\<close> assigns every expiry date the parser reads, whatever its
  distance from the reference date, to exactly one of the six buckets: the first
  threshold in ascending order that the day count does not exceed, so that 30, 90, 180,
  365 and 730 days fall in the lower bucket and anything beyond 730 days is \<open>2Y+\<close>.
\<close>

theorem classify_expiry_buckets:
  assumes "timestamp expiry_str = Inr d"
  shows "classify_expiry timestamp expiry_str ref_date =
     Inr (let days = toordinal d -
                     toordinal (case ref_date of None \<Rightarrow> REFERENCE_DATE | Some r \<Rightarrow> r)
          in if days \<le> 30 then ''0-1M''
             else if days \<le> 90 then ''1-3M''
             else if days \<le> 180 then ''3-6M''
             else if days \<le> 365 then ''6-12M''
             else if days \<le> 730 then ''1-2Y''
             else ''2Y+'')"
  using assms by (simp add: classify_expiry_def EXPIRY_BUCKET_THRESHOLDS_def Let_def)

lemma example_ordinals:
  "toordinal \<lparr>year = 2026, month = 3, day = 8\<rparr> - toordinal REFERENCE_DATE = 30"
  "toordinal \<lparr>year = 2026, month = 8, day = 5\<rparr> - toordinal REFERENCE_DATE = 180"
  by (simp_all add: toordinal_def REFERENCE_DATE_def days_before_year_def
      days_before_month_def is_leap_def)

text \<open>8 March 2026 is 30 days after the reference date, 6 February 2026.\<close>

theorem classify_expiry_buckets_witness:
  "example_timestamp ''2026-03-08'' = Inr \<lparr>year = 2026, month = 3, day = 8\<rparr> \<and>
   classify_expiry example_timestamp ''2026-03-08'' None = Inr ''0-1M''"
proof -
  have t: "example_timestamp ''2026-03-08'' = Inr \<lparr>year = 2026, month = 3, day = 8\<rparr>"
    by (simp add: example_timestamp_def)
  show ?thesis
    using classify_expiry_buckets[of example_timestamp "''2026-03-08''"
        "\<lparr>year = 2026, month = 3, day = 8\<rparr>" None] t
    by (simp add: example_ordinals)
qed

section \<open>Manual mode and the spot move\<close>

text \<open>
  C10. In manual mode the two matrices \<open>compute_vol_change_grid\<close> returns do not depend
  on the spot move: for one grid and one set of parameters, any two spot moves give the
  same pair, failures included.
\<close>

theorem manual_vol_change_grid_ignores_spot_move:
  "compute_vol_change_grid grid s1 ''manual'' beta_params manual_params =
   compute_vol_change_grid grid s2 ''manual'' beta_params manual_params"
  by (simp add: compute_vol_change_grid_def cong: sum.case_cong)

text \<open>The example grid under the default parameters, at -5% and at +5%.\<close>

theorem manual_vol_change_grid_ignores_spot_move_witness:
  "compute_vol_change_grid (example_grid 0) (- 0.05) ''manual'' None None =
   compute_vol_change_grid (example_grid 0) 0.05 ''manual'' None None"
  using manual_vol_change_grid_ignores_spot_move[of "example_grid 0" "- 0.05" None None "0.05"]
  by simp

section \<open>The empty store\<close>

text \<open>
  C9 (amended). On an empty surface mapping \<open>interpolate_vega_grid\<close>, and hence
  \<open>compute_pnl\<close>, fails and produces no result; the failure is the built-in
  \<^verbatim>\<open>ValueError\<close> with the message \<^verbatim>\<open>No surfaces provided\<close>.
\<close>

theorem empty_store_fails_with_ValueError:
  "interpolate_vega_grid interp1d [] s method = Inl (ValueError ''No surfaces provided'') \<and>
   compute_pnl interp1d timestamp [] s vol_mode beta_params manual_params method =
     Inl (ValueError ''No surfaces provided'') \<and>
   exc_class (ValueError ''No surfaces provided'') = ''ValueError''"
  by (simp add: compute_pnl_def interpolate_vega_grid_def)

text \<open>The empty store under the default arguments.\<close>

theorem empty_store_fails_with_ValueError_witness:
  "interpolate_vega_grid linear_interp1d [] 0 ''linear'' =
     Inl (ValueError ''No surfaces provided'') \<and>
   compute_pnl linear_interp1d example_timestamp [] 0 ''beta'' None None ''linear'' =
     Inl (ValueError ''No surfaces provided'')"
  using empty_store_fails_with_ValueError[of linear_interp1d 0 "''linear''" example_timestamp
      "''beta''" None None]
  by simp

lemma undetected_shift: "detect_shift_from_filename ''x.csv'' = None"
  by code_simp

text \<open>
  C9 as stated fails: the failure of the empty store and the parser's failure on a file
  name that carries no shift are of one class, \<^verbatim>\<open>ValueError\<close>; only the message
  tells them apart.
\<close>

theorem empty_store_error_kind_counterexample:
  "\<exists>e1 e2. interpolate_vega_grid linear_interp1d [] 0 ''linear'' = Inl e1 \<and>
           parse_csv example_timestamp \<lparr>columns = [], index = [], rows = []\<rparr> ''x.csv''
             None None = Inl e2 \<and>
           exc_class e1 = exc_class e2"
  by (simp add: interpolate_vega_grid_def parse_csv_def undetected_shift)

section \<open>Beta model: the ATM response\<close>

lemma atm_change_of_eq:
  "atm_change_of params s =
     spot_vol_beta params * (s * 100) + convexity params * (s * 100)\<^sup>2 * 0.01"
  by (simp add: atm_change_of_def Let_def power2_eq_square algebra_simps)

lemma quad_magnitude_mono:
  fixes b c d1 d2 :: real
  assumes "b < 0" "0 \<le> d1" "d1 \<le> d2" "c * d2 / 50 \<le> - b"
  shows "\<bar>b * d1 + c * d1 * d1 / 100\<bar> \<le> \<bar>b * d2 + c * d2 * d2 / 100\<bar>"
proof -
  have k: "b + c * d1 / 100 + c * d2 / 100 \<le> 0"
  proof (cases "c \<le> 0")
    case True
    have "c * d1 \<le> 0" "c * d2 \<le> 0"
      using True assms(2,3) by (auto intro: mult_nonpos_nonneg)
    then show ?thesis using assms(1) by linarith
  next
    case False
    then have "c * d1 \<le> c * d2"
      using assms(3) by (intro mult_left_mono) auto
    then show ?thesis using assms(4) by linarith
  qed
  have k1: "b + c * d1 / 100 \<le> 0"
  proof (cases "c \<le> 0")
    case True
    have "c * d1 \<le> 0"
      using True assms(2) by (intro mult_nonpos_nonneg) auto
    then show ?thesis using assms(1) by linarith
  next
    case False
    then have "c * d1 \<le> c * d2"
      using assms(3) by (intro mult_left_mono) auto
    moreover have "0 \<le> c * d1"
      using False assms(2) by (intro mult_nonneg_nonneg) auto
    ultimately show ?thesis using assms(4) by linarith
  qed
  have f1: "b * d1 + c * d1 * d1 / 100 = d1 * (b + c * d1 / 100)"
    by (simp add: algebra_simps)
  have le0: "b * d1 + c * d1 * d1 / 100 \<le> 0"
    unfolding f1 using assms(2) k1 by (intro mult_nonneg_nonpos) auto
  have diff: "(b * d1 + c * d1 * d1 / 100) - (b * d2 + c * d2 * d2 / 100)
              = (d1 - d2) * (b + c * d1 / 100 + c * d2 / 100)"
    by (simp add: field_simps)
  have "0 \<le> (d1 - d2) * (b + c * d1 / 100 + c * d2 / 100)"
    using assms(3) k by (intro mult_nonpos_nonpos) auto
  then have "b * d2 + c * d2 * d2 / 100 \<le> b * d1 + c * d1 * d1 / 100"
    using diff by linarith
  then show ?thesis
    using le0 by linarith
qed

text \<open>
  The vol change of a node, for every moneyness, tenor and spot move of either sign:
  \<open>atm_change\<close> times the skew factor times the term factor, where \<open>atm_change\<close> is the
  beta term plus the convexity term.
\<close>

lemma beta_vol_change_dSigma:
  "fst (beta_vol_change m y s params) =
     (spot_vol_beta params * (s * 100) + convexity params * (s * 100)\<^sup>2 * 0.01)
     * clip (1.0 - skew_beta params * (m - 1.0) * sgn (- (s * 100))) 0.5 2.0
     * max (term_floor params) (exp (- term_decay params * y))"
  by (simp add: beta_vol_change_def Let_def power2_eq_square algebra_simps)

text \<open>At the money the skew factor is 1, so the vol change is \<open>atm_change\<close> times the term factor.\<close>

lemma beta_vol_change_atm_node:
  "\<bar>fst (beta_vol_change 1 y s params)\<bar> =
     \<bar>atm_change_of params s\<bar> * max (term_floor params) (exp (- term_decay params * y))"
proof -
  have t: "0 \<le> max (term_floor params) (exp (- term_decay params * y))"
    by (simp add: le_max_iff_disj)
  have "fst (beta_vol_change 1 y s params) =
          atm_change_of params s * max (term_floor params) (exp (- term_decay params * y))"
    by (simp add: beta_vol_change_def atm_change_of_def Let_def clip_def)
  then show ?thesis
    using t by (simp add: abs_mult)
qed

text \<open>
  C6 (amended). In \<open>beta_vol_change\<close>, for every spot move of either sign, the vol change
  is \<open>atm_change\<close> times the skew and term factors, where
  \<open>atm_change = spot_vol_beta * dS + convexity * dS\<^sup>2 * 0.01\<close> with \<open>dS = spot_move * 100\<close>:
  the convexity term is added whatever the sign of \<open>dS\<close>. For \<open>spot_vol_beta < 0\<close> and up
  moves, the magnitude of \<open>atm_change\<close>, and with it the magnitude of the vol change at
  the money, is non-decreasing in \<open>dS\<close> as long as
  \<open>convexity * dS * 0.02 \<le> - spot_vol_beta\<close>, which is every up move when the convexity
  is not positive.
\<close>

theorem beta_atm_change_response:
  "fst (beta_vol_change m y s params) =
     (spot_vol_beta params * (s * 100) + convexity params * (s * 100)\<^sup>2 * 0.01)
     * clip (1.0 - skew_beta params * (m - 1.0) * sgn (- (s * 100))) 0.5 2.0
     * max (term_floor params) (exp (- term_decay params * y)) \<and>
   atm_change_of params s =
     spot_vol_beta params * (s * 100) + convexity params * (s * 100)\<^sup>2 * 0.01 \<and>
   (spot_vol_beta params < 0 \<and> 0 \<le> s1 \<and> s1 \<le> s2 \<and>
    convexity params * (s2 * 100) * 0.02 \<le> - spot_vol_beta params \<longrightarrow>
      \<bar>atm_change_of params s1\<bar> \<le> \<bar>atm_change_of params s2\<bar> \<and>
      \<bar>fst (beta_vol_change 1 y s1 params)\<bar> \<le> \<bar>fst (beta_vol_change 1 y s2 params)\<bar>)"
proof -
  have mono: "\<bar>atm_change_of params s1\<bar> \<le> \<bar>atm_change_of params s2\<bar> \<and>
      \<bar>fst (beta_vol_change 1 y s1 params)\<bar> \<le> \<bar>fst (beta_vol_change 1 y s2 params)\<bar>"
    if h: "spot_vol_beta params < 0" "0 \<le> s1" "s1 \<le> s2"
      "convexity params * (s2 * 100) * 0.02 \<le> - spot_vol_beta params"
  proof -
    have d: "0 \<le> s1 * 100" "s1 * 100 \<le> s2 * 100"
      using h(2,3) by auto
    have e: "convexity params * (s2 * 100) / 50 \<le> - spot_vol_beta params"
      using h(4) by simp
    have c: "\<bar>atm_change_of params s1\<bar> \<le> \<bar>atm_change_of params s2\<bar>"
      using quad_magnitude_mono[OF h(1) d e]
      by (simp add: atm_change_of_def Let_def)
    have t: "0 \<le> max (term_floor params) (exp (- term_decay params * y))"
      by (simp add: le_max_iff_disj)
    have "\<bar>atm_change_of params s1\<bar> * max (term_floor params) (exp (- term_decay params * y))
          \<le> \<bar>atm_change_of params s2\<bar> * max (term_floor params) (exp (- term_decay params * y))"
      using c t by (rule mult_right_mono)
    then show ?thesis
      using c by (simp add: beta_vol_change_atm_node)
  qed
  show ?thesis
    using beta_vol_change_dSigma[of m y s params] atm_change_of_eq[of params s] mono
    by blast
qed

lemma atm_default_values:
  "atm_change_of BetaParams_default (- (1 / 20)) = 5 / 2"
  "atm_change_of BetaParams_default (1 / 20) = - (3 / 2)"
  "atm_change_of BetaParams_default (1 / 10) = - 2"
  "atm_change_of BetaParams_default (1 / 5) = 0"
  by (simp_all add: atm_change_of_def BetaParams_default_def Let_def)

text \<open>
  The default parameters: on the down move -5% both terms are positive and
  \<open>atm_change\<close> is 2.5; at +5% and +10% it is -1.5 and -2.
\<close>

theorem beta_atm_change_response_witness:
  "spot_vol_beta BetaParams_default < 0 \<and>
   convexity BetaParams_default * (0.1 * 100) * 0.02 \<le> - spot_vol_beta BetaParams_default \<and>
   atm_change_of BetaParams_default (- 0.05) = 2.5 \<and>
   fst (beta_vol_change 1 1 (- 0.05) BetaParams_default) =
     2.5 * max (term_floor BetaParams_default) (exp (- term_decay BetaParams_default * 1)) \<and>
   atm_change_of BetaParams_default 0.05 = - 1.5 \<and>
   atm_change_of BetaParams_default 0.1 = - 2 \<and>
   \<bar>atm_change_of BetaParams_default 0.05\<bar> \<le> \<bar>atm_change_of BetaParams_default 0.1\<bar> \<and>
   \<bar>fst (beta_vol_change 1 1 0.05 BetaParams_default)\<bar>
     \<le> \<bar>fst (beta_vol_change 1 1 0.1 BetaParams_default)\<bar>"
proof -
  have h: "spot_vol_beta BetaParams_default < 0 \<and> (0 :: real) \<le> 0.05 \<and> (0.05 :: real) \<le> 0.1 \<and>
    convexity BetaParams_default * (0.1 * 100) * 0.02 \<le> - spot_vol_beta BetaParams_default"
    by (simp add: BetaParams_default_def)
  have f: "fst (beta_vol_change 1 1 (- 0.05) BetaParams_default) =
     2.5 * max (term_floor BetaParams_default) (exp (- term_decay BetaParams_default * 1))"
    using beta_atm_change_response[of 1 1 "- 0.05" BetaParams_default "0.05" "0.1"]
    by (simp add: clip_def) (simp add: BetaParams_default_def)
  have m: "\<bar>atm_change_of BetaParams_default 0.05\<bar> \<le> \<bar>atm_change_of BetaParams_default 0.1\<bar> \<and>
      \<bar>fst (beta_vol_change 1 1 0.05 BetaParams_default)\<bar>
        \<le> \<bar>fst (beta_vol_change 1 1 0.1 BetaParams_default)\<bar>"
    using beta_atm_change_response[of 1 1 "- 0.05" BetaParams_default "0.05" "0.1"] h
    by blast
  show ?thesis
    using h f m by (simp add: atm_default_values)
qed

text \<open>
  C6 as stated fails: under the default parameters \<open>atm_change\<close> is -2 at +10% and 0 at
  +20%, where the convexity term cancels the beta term, and the vol change at the money
  falls to 0 with it.
\<close>

theorem beta_atm_change_monotone_counterexample:
  "\<not> (\<forall>params s1 s2. spot_vol_beta params < 0 \<and> 0 \<le> s1 \<and> s1 \<le> s2 \<longrightarrow>
        \<bar>atm_change_of params s1\<bar> \<le> \<bar>atm_change_of params s2\<bar>) \<and>
   \<not> \<bar>fst (beta_vol_change 1 1 0.1 BetaParams_default)\<bar>
       \<le> \<bar>fst (beta_vol_change 1 1 0.2 BetaParams_default)\<bar>"
proof -
  have neg: "spot_vol_beta BetaParams_default < 0"
    by (simp add: BetaParams_default_def)
  have a: "\<not> (\<forall>params s1 s2. spot_vol_beta params < 0 \<and> 0 \<le> s1 \<and> s1 \<le> s2 \<longrightarrow>
        \<bar>atm_change_of params s1\<bar> \<le> \<bar>atm_change_of params s2\<bar>)"
  proof
    assume "\<forall>params s1 s2. spot_vol_beta params < 0 \<and> 0 \<le> s1 \<and> s1 \<le> s2 \<longrightarrow>
        \<bar>atm_change_of params s1\<bar> \<le> \<bar>atm_change_of params s2\<bar>"
    then have "spot_vol_beta BetaParams_default < 0 \<and> (0 :: real) \<le> 0.1 \<and> (0.1 :: real) \<le> 0.2 \<longrightarrow>
       \<bar>atm_change_of BetaParams_default 0.1\<bar> \<le> \<bar>atm_change_of BetaParams_default 0.2\<bar>"
      by blast
    then show False
      using neg by (simp add: atm_default_values)
  qed
  have t: "0 < max (term_floor BetaParams_default) (exp (- term_decay BetaParams_default * 1))"
    by (simp add: less_max_iff_disj)
  have b: "\<not> \<bar>fst (beta_vol_change 1 1 0.1 BetaParams_default)\<bar>
       \<le> \<bar>fst (beta_vol_change 1 1 0.2 BetaParams_default)\<bar>"
    using t by (simp add: beta_vol_change_atm_node atm_default_values)
  show ?thesis
    using a b by simp
qed

section \<open>Parser: supplied totals\<close>

lemma select_conv:
  "select (map f ix) xs = map snd (filter (\<lambda>(i, x). f i) (zip ix xs))"
  by (simp add: select_def zip_map1 filter_map o_def case_prod_unfold)

lemma select_map: "select msk (map h xs) = map h (select msk xs)"
  by (simp add: select_def zip_map2 filter_map o_def case_prod_unfold)

lemma drop_cell:
  "distinct cs \<Longrightarrow> length r = length cs \<Longrightarrow> name \<in> set cs \<Longrightarrow>
   map snd (filter (\<lambda>(c, v). c \<noteq> name) (zip cs r)) =
     take (length (takeWhile (\<lambda>c. c \<noteq> name) cs)) r
     @ drop (Suc (length (takeWhile (\<lambda>c. c \<noteq> name) cs))) r"
proof (induction cs arbitrary: r)
  case Nil
  then show ?case by simp
next
  case (Cons c cs)
  then obtain v vs where r: "r = v # vs" by (cases r) auto
  show ?case
  proof (cases "c = name")
    case True
    then have "name \<notin> set cs" using Cons.prems(1) by auto
    then have "filter (\<lambda>(c, v). c \<noteq> name) (zip cs vs) = zip cs vs"
      by (auto simp: filter_id_conv dest: set_zip_leftD)
    then show ?thesis using True r Cons.prems(2) by simp
  next
    case False
    then show ?thesis using Cons r by simp
  qed
qed

lemma parse_csv_with_total:
  assumes "''TOTAL'' \<in> set (columns df)"
    and "parse_csv timestamp df filepath shift ref_date = Inr g"
  shows "row_totals g = select (map (\<lambda>x. x \<noteq> None) (index df)) (frame_column df ''TOTAL'')"
    and "col_totals g =
           (case select (map Not (map (\<lambda>x. x \<noteq> None) (index df)))
                   (rows (drop_column df ''TOTAL'')) of
              r # rest \<Rightarrow> r
            | [] \<Rightarrow> sum_axis0
                \<lparr>nrows = length (select (map (\<lambda>x. x \<noteq> None) (index df))
                                    (rows (drop_column df ''TOTAL''))),
                 ncols = length (columns (drop_column df ''TOTAL'')),
                 cells = select (map (\<lambda>x. x \<noteq> None) (index df))
                           (rows (drop_column df ''TOTAL''))\<rparr>)"
    and "total g = sum_list (row_totals g)"
  using assms unfolding parse_csv_def Let_def
  by (auto split: sum.splits option.splits simp: drop_column_def cong: list.case_cong)

lemma first_summary_row:
  assumes "frame_ok df" and "''TOTAL'' \<in> set (columns df)" and "None \<in> set (index df)"
  shows "(case select (map Not (map (\<lambda>x. x \<noteq> None) (index df)))
                   (rows (drop_column df ''TOTAL'')) of
              r # rest \<Rightarrow> r
            | [] \<Rightarrow> other) = supplied_col_totals df"
proof -
  let ?cell = "\<lambda>r. map snd (filter (\<lambda>(c, v). c \<noteq> ''TOTAL'') (zip (columns df) r))"
  let ?summary = "filter (\<lambda>(ix, r). ix = None) (zip (index df) (rows df))"
  have len: "length (rows df) = length (index df)"
    using assms(1) by (simp add: frame_ok_def)
  have sel: "select (map Not (map (\<lambda>x. x \<noteq> None) (index df))) (rows (drop_column df ''TOTAL''))
             = map ?cell (map snd ?summary)"
    by (simp add: drop_column_def select_map select_conv[of "\<lambda>x. x = None", symmetric] o_def)
  obtain i where i: "i < length (index df)" "index df ! i = None"
    using assms(3) by (metis in_set_conv_nth)
  then have "(None, rows df ! i) \<in> set (zip (index df) (rows df))"
    using len by (metis in_set_zip fst_conv snd_conv length_zip min.idem nth_zip)
  then have "(None, rows df ! i) \<in> set ?summary"
    by simp
  then obtain ix r rest where s: "?summary = (ix, r) # rest"
    by (cases ?summary) auto
  have "(ix, r) \<in> set ?summary"
    using s by simp
  then have "r \<in> set (rows df)"
    by (auto dest: set_zip_rightD)
  then have lr: "length r = length (columns df)"
    using assms(1) by (auto simp: frame_ok_def list_all_iff)
  have d: "distinct (columns df)"
    using assms(1) by (simp add: frame_ok_def)
  show ?thesis
    unfolding sel supplied_col_totals_def total_position_def s
    using drop_cell[OF d lr assms(2)] by simp
qed

text \<open>
  C8 (amended). Parsing a table that supplies row totals (a \<^verbatim>\<open>TOTAL\<close> column) and
  column totals (a trailing summary row) yields a grid whose \<open>row_totals\<close> and
  \<open>col_totals\<close> are exactly the supplied ones and whose \<open>total\<close> is the sum of the
  row totals. The sum of the column totals equals \<open>total\<close> exactly when the supplied
  column totals and the supplied row totals have the same sum: the parser does not check
  them against each other or against the cells.
\<close>

theorem parse_csv_supplied_totals:
  assumes "frame_ok df" and "''TOTAL'' \<in> set (columns df)" and "None \<in> set (index df)"
    and "parse_csv timestamp df filepath shift ref_date = Inr g"
  shows "row_totals g = supplied_row_totals df \<and>
         col_totals g = supplied_col_totals df \<and>
         total g = sum_list (row_totals g) \<and>
         (sum_list (col_totals g) = total g) =
           (sum_list (supplied_col_totals df) = sum_list (supplied_row_totals df))"
proof -
  have r: "row_totals g = supplied_row_totals df"
    unfolding parse_csv_with_total(1)[OF assms(2,4)] supplied_row_totals_def
      frame_column_def total_position_def
    by (simp add: select_map select_conv case_prod_unfold)
  have c: "col_totals g = supplied_col_totals df"
    unfolding parse_csv_with_total(2)[OF assms(2,4)]
    by (rule first_summary_row[OF assms(1,2,3)])
  have t: "total g = sum_list (row_totals g)"
    by (rule parse_csv_with_total(3)[OF assms(2,4)])
  show ?thesis
    using r c t by auto
qed

lemma example_frame_ok: "frame_ok example_frame"
  by (simp add: frame_ok_def example_frame_def)

lemma example_years:
  "mapM (years_to_expiry_of example_timestamp REFERENCE_DATE) [''2026-03-08'', ''2026-08-05'']
   = Inr [30 / 365.25, 180 / 365.25]"
  by (simp add: years_to_expiry_of_def example_timestamp_def example_ordinals)

lemma strip_example_labels:
  "strip ''2026-03-08'' = ''2026-03-08''" "strip ''2026-08-05'' = ''2026-08-05''"
  by (simp_all add: strip_def is_space_def)

lemma parse_example_frame:
  "parse_csv example_timestamp example_frame ''SPX_atm.csv'' (Some 0) None = Inr (example_grid 0)"
  by code_simp

lemma example_supplied:
  "supplied_row_totals example_frame = [300, 400]"
  "supplied_col_totals example_frame = [250, 450]"
  by code_simp+

text \<open>The example table parses to the example grid, whose totals agree.\<close>

theorem parse_csv_supplied_totals_witness:
  "frame_ok example_frame \<and>
   ''TOTAL'' \<in> set (columns example_frame) \<and> None \<in> set (index example_frame) \<and>
   parse_csv example_timestamp example_frame ''SPX_atm.csv'' (Some 0) None = Inr (example_grid 0) \<and>
   supplied_row_totals example_frame = [300, 400] \<and>
   supplied_col_totals example_frame = [250, 450] \<and>
   total (example_grid 0) = sum_list (row_totals (example_grid 0)) \<and>
   sum_list (col_totals (example_grid 0)) = total (example_grid 0)"
proof -
  have h: "''TOTAL'' \<in> set (columns example_frame)" "None \<in> set (index example_frame)"
    by (simp_all add: example_frame_def)
  show ?thesis
    using parse_csv_supplied_totals[OF example_frame_ok h parse_example_frame]
      example_frame_ok h parse_example_frame
    by (simp add: example_grid_def example_supplied)
qed

lemma inconsistent_frame_ok: "frame_ok inconsistent_frame"
  by (simp add: frame_ok_def inconsistent_frame_def)

lemma parse_inconsistent_frame:
  "parse_csv example_timestamp inconsistent_frame ''SPX_atm.csv'' (Some 0) None =
     Inr \<lparr>spot_shift = 0, moneyness = [1], expiries = [''2026-03-08''],
          expiry_years = [30 / 365.25],
          grid_values = \<lparr>nrows = 1, ncols = 1, cells = [[1]]\<rparr>,
          row_totals = [1], col_totals = [5], total = 1\<rparr>"
  by code_simp

text \<open>
  C8 as stated fails: for a table with the cell 1, the row total 1 and the column total
  5, the parsed grid has \<open>total = 1\<close> and column totals of sum 5.
\<close>

theorem parse_csv_col_totals_counterexample:
  "frame_ok inconsistent_frame \<and>
   ''TOTAL'' \<in> set (columns inconsistent_frame) \<and> None \<in> set (index inconsistent_frame) \<and>
   (\<exists>g. parse_csv example_timestamp inconsistent_frame ''SPX_atm.csv'' (Some 0) None = Inr g \<and>
        sum_list (col_totals g) \<noteq> total g)"
  using inconsistent_frame_ok parse_inconsistent_frame
  by (simp add: inconsistent_frame_def)

section \<open>P&L decomposition\<close>

lemma mapM_all2: "mapM f xs = Inr ys \<Longrightarrow> list_all2 (\<lambda>x y. f x = Inr y) xs ys"
  by (induction xs arbitrary: ys) (auto split: sum.splits)

lemma mapM_length: "mapM f xs = Inr ys \<Longrightarrow> length ys = length xs"
  by (drule mapM_all2) (simp add: list_all2_lengthD)

lemma mapM_grid_shape:
  assumes "mapM (\<lambda>i. mapM (f i) [0..<m]) [0..<n] = Inr rs"
  shows "length rs = n \<and> list_all (\<lambda>r. length r = m) rs"
proof -
  have a: "list_all2 (\<lambda>i r. mapM (f i) [0..<m] = Inr r) [0..<n] rs"
    using mapM_all2[OF assms] .
  have "\<forall>r \<in> set rs. length r = m"
  proof
    fix r assume "r \<in> set rs"
    then obtain i where "mapM (f i) [0..<m] = Inr r"
      using a by (auto simp: list_all2_conv_all_nth in_set_conv_nth)
    then show "length r = m"
      using mapM_length by fastforce
  qed
  then show ?thesis
    using mapM_length[OF assms] by (simp add: list_all_iff)
qed

lemma column_sums_total:
  fixes rs :: "real list list"
  shows "list_all (\<lambda>r. length r = m) rs \<Longrightarrow>
   sum_list (map (\<lambda>j. sum_list (map (\<lambda>r. r ! j) rs)) [0..<m]) = sum_list (map sum_list rs)"
proof (induction rs)
  case Nil
  then show ?case by simp
next
  case (Cons r rs)
  have "map (\<lambda>j. r ! j) [0..<m] = r"
    using Cons.prems map_nth[of r] by auto
  then have r: "sum_list (map (\<lambda>j. r ! j) [0..<m]) = sum_list r"
    by simp
  have "sum_list (map (\<lambda>j. r ! j + sum_list (map (\<lambda>r. r ! j) rs)) [0..<m]) =
        sum_list (map (\<lambda>j. r ! j) [0..<m])
        + sum_list (map (\<lambda>j. sum_list (map (\<lambda>r. r ! j) rs)) [0..<m])"
    by (rule sum_list_addf)
  also have "\<dots> = sum_list r + sum_list (map sum_list rs)"
    using r Cons by simp
  finally show ?case
    by simp
qed

lemma array_column_sums:
  "array_ok a \<Longrightarrow> sum_list (map (\<lambda>j. sum_list (column a j)) [0..<ncols a]) = arr_sum a"
  by (simp add: array_ok_def column_sums_total column_def arr_sum_def)

lemma array_row_sums:
  "array_ok a \<Longrightarrow> sum_list (map (\<lambda>i. sum_list (cells a ! i)) [0..<nrows a]) = arr_sum a"
proof -
  assume "array_ok a"
  then have "map (\<lambda>i. cells a ! i) [0..<nrows a] = cells a"
    using map_nth[of "cells a"] by (auto simp: array_ok_def)
  then have "map sum_list (map (\<lambda>i. cells a ! i) [0..<nrows a]) = map sum_list (cells a)"
    by simp
  then show ?thesis
    by (simp add: arr_sum_def o_def)
qed

lemma map2_rows_ok:
  assumes "list_all (\<lambda>r. length r = m) xs" "list_all (\<lambda>r. length r = m) ys"
  shows "list_all (\<lambda>r. length r = m) (map2 (map2 f) xs ys)"
proof -
  have "\<forall>r \<in> set (map2 (map2 f) xs ys). length r = m"
  proof
    fix r assume "r \<in> set (map2 (map2 f) xs ys)"
    then obtain x y where xy: "(x, y) \<in> set (zip xs ys)" "r = map2 f x y"
      by auto
    have "x \<in> set xs" "y \<in> set ys"
      using xy(1) by (auto dest: set_zip_leftD set_zip_rightD)
    then have "length x = m" "length y = m"
      using assms by (auto simp: list_all_iff)
    then show "length r = m"
      using xy(2) by simp
  qed
  then show ?thesis
    by (simp add: list_all_iff)
qed

lemma arr_mul_ok:
  assumes "array_ok a" "array_ok b" "nrows b = nrows a" "ncols b = ncols a"
  shows "array_ok (arr_mul a b) \<and> nrows (arr_mul a b) = nrows a \<and> ncols (arr_mul a b) = ncols a"
  using assms map2_rows_ok[of "ncols a" "cells a" "cells b" "(*)"]
  by (simp add: array_ok_def arr_mul_def)

lemma arr_add_ok:
  assumes "array_ok a" "array_ok b" "nrows b = nrows a" "ncols b = ncols a"
  shows "array_ok (arr_add a b) \<and> nrows (arr_add a b) = nrows a \<and> ncols (arr_add a b) = ncols a"
  using assms map2_rows_ok[of "ncols a" "cells a" "cells b" "(+)"]
  by (simp add: array_ok_def arr_add_def)

lemma dict_set_new: "k \<notin> fst ` set d \<Longrightarrow> dict_set d k v = d @ [(k, v)]"
  by (induction d) auto

lemma dict_set_accumulate:
  "sum_list (map snd (dict_set d k (dict_get d k 0 + c))) = sum_list (map snd d) + (c :: real)"
  by (induction d) (auto simp: dict_get_def)

lemma by_expiry_loop_sum:
  assumes "by_expiry_loop pg (enumerate k es) d = Inr d'"
    and "distinct es" and "set es \<inter> fst ` set d = {}"
  shows "sum_list (map snd d') =
           sum_list (map snd d) + sum_list (map (\<lambda>j. sum_list (column pg j)) [k..<k + length es])"
  using assms
proof (induction es arbitrary: k d)
  case Nil
  then show ?case by simp
next
  case (Cons e es)
  from Cons.prems(1) obtain c where c: "col_sum pg k = Inr c"
    and loop: "by_expiry_loop pg (enumerate (Suc k) es) (dict_set d e c) = Inr d'"
    by (auto split: sum.splits)
  have kc: "c = sum_list (column pg k)"
    using c by (auto simp: col_sum_def split: if_splits)
  have new: "dict_set d e c = d @ [(e, c)]"
    using Cons.prems(3) by (intro dict_set_new) auto
  have disj: "set es \<inter> fst ` set (dict_set d e c) = {}"
    using Cons.prems(2,3) unfolding new by auto
  have ih: "sum_list (map snd d') =
           sum_list (map snd (dict_set d e c))
           + sum_list (map (\<lambda>j. sum_list (column pg j)) [Suc k..<Suc k + length es])"
    using Cons.IH[OF loop _ disj] Cons.prems(2) by simp
  have up: "[k..<k + length (e # es)] = k # [Suc k..<Suc k + length es]"
    using upt_conv_Cons[of k "k + Suc (length es)"] by simp
  show ?case
    using ih kc unfolding up new by simp
qed

lemma by_moneyness_loop_sum:
  assumes "by_moneyness_loop pg (enumerate k ms) d = Inr d'"
    and "distinct ms" and "set ms \<inter> fst ` set d = {}"
  shows "sum_list (map snd d') =
           sum_list (map snd d) + sum_list (map (\<lambda>i. sum_list (cells pg ! i)) [k..<k + length ms])"
  using assms
proof (induction ms arbitrary: k d)
  case Nil
  then show ?case by simp
next
  case (Cons m ms)
  from Cons.prems(1) obtain c where c: "row_sum pg k = Inr c"
    and loop: "by_moneyness_loop pg (enumerate (Suc k) ms) (dict_set d m c) = Inr d'"
    by (auto split: sum.splits)
  have kc: "c = sum_list (cells pg ! k)"
    using c by (auto simp: row_sum_def split: if_splits)
  have new: "dict_set d m c = d @ [(m, c)]"
    using Cons.prems(3) by (intro dict_set_new) auto
  have disj: "set ms \<inter> fst ` set (dict_set d m c) = {}"
    using Cons.prems(2,3) unfolding new by auto
  have ih: "sum_list (map snd d') =
           sum_list (map snd (dict_set d m c))
           + sum_list (map (\<lambda>i. sum_list (cells pg ! i)) [Suc k..<Suc k + length ms])"
    using Cons.IH[OF loop _ disj] Cons.prems(2) by simp
  have up: "[k..<k + length (m # ms)] = k # [Suc k..<Suc k + length ms]"
    using upt_conv_Cons[of k "k + Suc (length ms)"] by simp
  show ?case
    using ih kc unfolding up new by simp
qed

lemma by_bucket_loop_sum:
  assumes "by_bucket_loop timestamp pg (enumerate k es) d = Inr d'"
  shows "sum_list (map snd d') =
           sum_list (map snd d) + sum_list (map (\<lambda>j. sum_list (column pg j)) [k..<k + length es])"
  using assms
proof (induction es arbitrary: k d)
  case Nil
  then show ?case by simp
next
  case (Cons e es)
  from Cons.prems obtain bucket c where c: "col_sum pg k = Inr c"
    and loop: "by_bucket_loop timestamp pg (enumerate (Suc k) es)
                 (dict_set d bucket (dict_get d bucket 0 + c)) = Inr d'"
    by (auto split: sum.splits)
  have kc: "c = sum_list (column pg k)"
    using c by (auto simp: col_sum_def split: if_splits)
  have up: "[k..<k + length (e # es)] = k # [Suc k..<Suc k + length es]"
    using upt_conv_Cons[of k "k + Suc (length es)"] by simp
  show ?case
    using Cons.IH[OF loop] kc unfolding up by (simp add: dict_set_accumulate)
qed

lemma dict_getitem_member: "dict_getitem d k = Inr v \<Longrightarrow> (k, v) \<in> set d"
  by (auto simp: dict_getitem_def split: option.splits dest: map_of_SomeD)

lemma interpolate_keeps_shape:
  assumes "list_all (\<lambda>(k, g). grid_ok g \<and> labels_distinct g) surfaces"
    and "interpolate_vega_grid interp1d surfaces s method = Inr vg"
  shows "grid_ok vg \<and> labels_distinct vg"
proof -
  have all: "\<And>k g. (k, g) \<in> set surfaces \<Longrightarrow> grid_ok g \<and> labels_distinct g"
    using assms(1) by (auto simp: list_all_iff)
  have l: "length (sort (map fst surfaces)) = length surfaces"
    by simp
  show ?thesis
  proof (cases "length surfaces = 1")
    case True
    have "dict_getitem surfaces (sort (map fst surfaces) ! 0) = Inr vg"
      using assms(2) unfolding interpolate_vega_grid_def Let_def l
      by (simp add: True)
    then show ?thesis
      using all dict_getitem_member by fastforce
  next
    case False
    define shifts where "shifts = sort (map fst surfaces)"
    define clamped where "clamped = clip s (shifts ! 0) (last shifts)"
    have len: "length shifts = length surfaces"
      by (simp add: shifts_def)
    have ne: "surfaces \<noteq> []"
      using assms(2) by (auto simp: interpolate_vega_grid_def)
    have body: "(case map_of surfaces clamped of
           Some grid \<Rightarrow>
             Inr \<lparr>spot_shift = s, moneyness = moneyness grid,
                  expiries = expiries grid, expiry_years = expiry_years grid,
                  grid_values = grid_values grid, row_totals = row_totals grid,
                  col_totals = col_totals grid, total = total grid\<rparr>
         | None \<Rightarrow>
             (case dict_getitem surfaces (shifts ! 0) of
                Inl e \<Rightarrow> Inl e
              | Inr ref \<Rightarrow>
                  (case mapM (\<lambda>i. mapM (\<lambda>j. interp_cell interp1d surfaces shifts method
                                                   clamped i j) [0..<ncols (grid_values ref)])
                                [0..<nrows (grid_values ref)] of
                        Inl e \<Rightarrow> Inl e
                      | Inr rws \<Rightarrow>
                          Inr \<lparr>spot_shift = s, moneyness = moneyness ref,
                                  expiries = expiries ref, expiry_years = expiry_years ref,
                                  grid_values = \<lparr>nrows = nrows (grid_values ref),
                                    ncols = ncols (grid_values ref), cells = rws\<rparr>,
                                  row_totals = sum_axis1 \<lparr>nrows = nrows (grid_values ref),
                                    ncols = ncols (grid_values ref), cells = rws\<rparr>,
                                  col_totals = sum_axis0 \<lparr>nrows = nrows (grid_values ref),
                                    ncols = ncols (grid_values ref), cells = rws\<rparr>,
                                  total = arr_sum \<lparr>nrows = nrows (grid_values ref),
                                    ncols = ncols (grid_values ref), cells = rws\<rparr>\<rparr>))) = Inr vg"
    proof -
      have f: "length surfaces \<noteq> Suc 0"
        using False by simp
      show ?thesis
        using assms(2) unfolding interpolate_vega_grid_def Let_def l shifts_def clamped_def
        by (simp add: f ne)
    qed
    show ?thesis
    proof (cases "map_of surfaces clamped")
      case (Some grid)
      then have "vg = \<lparr>spot_shift = s, moneyness = moneyness grid,
                  expiries = expiries grid, expiry_years = expiry_years grid,
                  grid_values = grid_values grid, row_totals = row_totals grid,
                  col_totals = col_totals grid, total = total grid\<rparr>"
        using body by simp
      moreover have "grid_ok grid \<and> labels_distinct grid"
        using all map_of_SomeD[OF Some] by blast
      ultimately show ?thesis
        by (simp add: grid_ok_def labels_distinct_def)
    next
      case None
      obtain ref rs where ref: "dict_getitem surfaces (shifts ! 0) = Inr ref"
        and rs: "mapM (\<lambda>i. mapM (\<lambda>j. interp_cell interp1d surfaces shifts method clamped i j)
                   [0..<ncols (grid_values ref)]) [0..<nrows (grid_values ref)] = Inr rs"
        and vg: "vg = \<lparr>spot_shift = s, moneyness = moneyness ref,
                    expiries = expiries ref, expiry_years = expiry_years ref,
                    grid_values = \<lparr>nrows = nrows (grid_values ref),
                                   ncols = ncols (grid_values ref), cells = rs\<rparr>,
                    row_totals = sum_axis1 \<lparr>nrows = nrows (grid_values ref),
                                   ncols = ncols (grid_values ref), cells = rs\<rparr>,
                    col_totals = sum_axis0 \<lparr>nrows = nrows (grid_values ref),
                                   ncols = ncols (grid_values ref), cells = rs\<rparr>,
                    total = arr_sum \<lparr>nrows = nrows (grid_values ref),
                                   ncols = ncols (grid_values ref), cells = rs\<rparr>\<rparr>"
        using body None by (auto split: sum.splits)
      have "grid_ok ref \<and> labels_distinct ref"
        using all dict_getitem_member[OF ref] by blast
      then show ?thesis
        using mapM_grid_shape[OF rs] unfolding vg
        by (simp add: grid_ok_def labels_distinct_def array_ok_def)
    qed
  qed
qed

lemma vol_change_grid_shape:
  assumes "compute_vol_change_grid grid s vol_mode bp mp = Inr (vc, vg)"
  shows "array_ok vc \<and> array_ok vg \<and>
         nrows vc = nrows (grid_values grid) \<and> ncols vc = ncols (grid_values grid) \<and>
         nrows vg = nrows (grid_values grid) \<and> ncols vg = ncols (grid_values grid)"
proof -
  obtain nodes where n: "mapM (\<lambda>i. mapM (\<lambda>j.
                      (case getitem (moneyness grid) i of
                         Inl e \<Rightarrow> Inl e
                       | Inr mi \<Rightarrow>
                           (case getitem (expiry_years grid) j of
                              Inl e \<Rightarrow> Inl e
                            | Inr yj \<Rightarrow>
                                Inr (if vol_mode = ''beta''
                                     then beta_vol_change mi yj s
                                       (case bp of None \<Rightarrow> BetaParams_default | Some p \<Rightarrow> p)
                                     else manual_vol_change mi yj
                                       (case mp of None \<Rightarrow> ManualParams_default | Some p \<Rightarrow> p)))))
                    [0..<ncols (grid_values grid)]) [0..<nrows (grid_values grid)] = Inr nodes"
    and vc: "vc = \<lparr>nrows = nrows (grid_values grid), ncols = ncols (grid_values grid),
                  cells = map (map fst) nodes\<rparr>"
    and vg: "vg = \<lparr>nrows = nrows (grid_values grid), ncols = ncols (grid_values grid),
                  cells = map (map snd) nodes\<rparr>"
    using assms by (auto simp: compute_vol_change_grid_def Let_def split: sum.splits)
  show ?thesis
    using mapM_grid_shape[OF n] unfolding vc vg
    by (simp add: array_ok_def list_all_iff)
qed

text \<open>
  C4 (amended). For every result \<open>compute_pnl\<close> produces from surfaces that keep the
  invariants of the data model and whose expiry labels are pairwise distinct, as their
  moneyness values are, \<open>total_pnl\<close> is the sum of the P&L matrix and equals the sum of
  the \<open>pnl_by_expiry\<close> values, the sum of the \<open>pnl_by_bucket\<close> values and the sum of the
  \<open>pnl_by_moneyness\<close> values.
\<close>

theorem pnl_decomposition:
  assumes "list_all (\<lambda>(k, g). grid_ok g \<and> labels_distinct g) surfaces"
    and "compute_pnl interp1d timestamp surfaces s vol_mode beta_params manual_params
           interp_method = Inr r"
  shows "total_pnl r = arr_sum (pnl_grid r) \<and>
         sum_list (dict_values (pnl_by_expiry r)) = total_pnl r \<and>
         sum_list (dict_values (pnl_by_bucket r)) = total_pnl r \<and>
         sum_list (dict_values (pnl_by_moneyness r)) = total_pnl r"
proof -
  define pg where "pg = pnl_grid r"
  obtain vg vc vo where
    vg: "interpolate_vega_grid interp1d surfaces s interp_method = Inr vg"
    and vc: "compute_vol_change_grid vg s vol_mode
               (Some (case beta_params of None \<Rightarrow> BetaParams_default | Some p \<Rightarrow> p))
               (Some (case manual_params of None \<Rightarrow> ManualParams_default | Some p \<Rightarrow> p))
             = Inr (vc, vo)"
    and pg: "pg = arr_add (arr_mul (grid_values vg) vc) (arr_mul (grid_values vg) vo)"
    and tot: "total_pnl r = arr_sum pg"
    and be: "by_expiry_loop pg (enumerate 0 (expiries vg)) [] = Inr (pnl_by_expiry r)"
    and bb: "by_bucket_loop timestamp pg (enumerate 0 (expiries vg)) [] = Inr (pnl_by_bucket r)"
    and bm: "by_moneyness_loop pg (enumerate 0 (moneyness vg)) [] = Inr (pnl_by_moneyness r)"
    using assms(2) unfolding compute_pnl_def Let_def pg_def
    by (auto split: sum.splits prod.splits)
  have ok: "grid_ok vg" "labels_distinct vg"
    using interpolate_keeps_shape[OF assms(1) vg] by auto
  have sh: "array_ok vc" "array_ok vo"
    "nrows vc = nrows (grid_values vg)" "ncols vc = ncols (grid_values vg)"
    "nrows vo = nrows (grid_values vg)" "ncols vo = ncols (grid_values vg)"
    using vol_change_grid_shape[OF vc] by auto
  have av: "array_ok (grid_values vg)"
    using ok(1) by (simp add: grid_ok_def)
  have m1: "array_ok (arr_mul (grid_values vg) vc)"
    "nrows (arr_mul (grid_values vg) vc) = nrows (grid_values vg)"
    "ncols (arr_mul (grid_values vg) vc) = ncols (grid_values vg)"
    using arr_mul_ok[OF av sh(1) sh(3) sh(4)] by auto
  have m2: "array_ok (arr_mul (grid_values vg) vo)"
    "nrows (arr_mul (grid_values vg) vo) = nrows (grid_values vg)"
    "ncols (arr_mul (grid_values vg) vo) = ncols (grid_values vg)"
    using arr_mul_ok[OF av sh(2) sh(5) sh(6)] by auto
  have pgok: "array_ok pg" "nrows pg = nrows (grid_values vg)" "ncols pg = ncols (grid_values vg)"
    using arr_add_ok[OF m1(1) m2(1)] m1 m2 unfolding pg by auto
  have le: "length (expiries vg) = ncols pg" and lm: "length (moneyness vg) = nrows pg"
    using ok(1) pgok by (auto simp: grid_ok_def)
  have e: "sum_list (map snd (pnl_by_expiry r)) = arr_sum pg"
    using by_expiry_loop_sum[OF be] ok(2) array_column_sums[OF pgok(1)] le
    by (simp add: labels_distinct_def)
  have b: "sum_list (map snd (pnl_by_bucket r)) = arr_sum pg"
    using by_bucket_loop_sum[OF bb] array_column_sums[OF pgok(1)] le
    by simp
  have m: "sum_list (map snd (pnl_by_moneyness r)) = arr_sum pg"
    using by_moneyness_loop_sum[OF bm] ok(2) array_row_sums[OF pgok(1)] lm
    by (simp add: labels_distinct_def)
  show ?thesis
    using e b m tot by (simp add: dict_values_def pg_def)
qed

lemma mapM_succeeds:
  "(\<And>x. x \<in> set xs \<Longrightarrow> \<exists>y. f x = Inr y) \<Longrightarrow> \<exists>ys. mapM f xs = Inr ys"
proof (induction xs)
  case Nil
  then show ?case by simp
next
  case (Cons x xs)
  obtain y where y: "f x = Inr y"
    using Cons.prems[of x] by auto
  obtain ys where ys: "mapM f xs = Inr ys"
    using Cons.IH Cons.prems by auto
  show ?case
    using y ys by simp
qed

lemma vol_change_grid_succeeds:
  assumes "nrows (grid_values grid) \<le> length (moneyness grid)"
    and "ncols (grid_values grid) \<le> length (expiry_years grid)"
  shows "\<exists>vc vo. compute_vol_change_grid grid s vol_mode bp mp = Inr (vc, vo)"
proof -
  let ?cell = "\<lambda>i j. (case getitem (moneyness grid) i of
                         Inl e \<Rightarrow> Inl e
                       | Inr mi \<Rightarrow>
                           (case getitem (expiry_years grid) j of
                              Inl e \<Rightarrow> Inl e
                            | Inr yj \<Rightarrow>
                                Inr (if vol_mode = ''beta''
                                     then beta_vol_change mi yj s
                                       (case bp of None \<Rightarrow> BetaParams_default | Some p \<Rightarrow> p)
                                     else manual_vol_change mi yj
                                       (case mp of None \<Rightarrow> ManualParams_default | Some p \<Rightarrow> p))))"
  have cell: "\<exists>y. ?cell i j = Inr y"
    if "i < nrows (grid_values grid)" "j < ncols (grid_values grid)" for i j
    using that assms by (simp add: getitem_def)
  have row: "\<exists>ys. mapM (?cell i) [0..<ncols (grid_values grid)] = Inr ys"
    if "i < nrows (grid_values grid)" for i
  proof (rule mapM_succeeds)
    fix j assume "j \<in> set [0..<ncols (grid_values grid)]"
    then show "\<exists>y. ?cell i j = Inr y"
      using cell[OF that] by simp
  qed
  have "\<exists>nodes. mapM (\<lambda>i. mapM (?cell i) [0..<ncols (grid_values grid)])
                  [0..<nrows (grid_values grid)] = Inr nodes"
  proof (rule mapM_succeeds)
    fix i assume "i \<in> set [0..<nrows (grid_values grid)]"
    then show "\<exists>ys. mapM (?cell i) [0..<ncols (grid_values grid)] = Inr ys"
      using row by simp
  qed
  then show ?thesis
    by (auto simp: compute_vol_change_grid_def Let_def)
qed

lemma by_expiry_loop_succeeds:
  "k + length es \<le> ncols pg \<Longrightarrow> \<exists>d'. by_expiry_loop pg (enumerate k es) d = Inr d'"
  by (induction es arbitrary: k d) (auto simp: col_sum_def)

lemma by_moneyness_loop_succeeds:
  "k + length ms \<le> nrows pg \<Longrightarrow> \<exists>d'. by_moneyness_loop pg (enumerate k ms) d = Inr d'"
  by (induction ms arbitrary: k d) (auto simp: row_sum_def)

lemma by_bucket_loop_succeeds:
  "k + length es \<le> ncols pg \<Longrightarrow> (\<And>e. e \<in> set es \<Longrightarrow> \<exists>dt. timestamp e = Inr dt) \<Longrightarrow>
   \<exists>d'. by_bucket_loop timestamp pg (enumerate k es) d = Inr d'"
proof (induction es arbitrary: k d)
  case Nil
  then show ?case by simp
next
  case (Cons e es)
  obtain dt where dt: "timestamp e = Inr dt"
    using Cons.prems(2)[of e] by auto
  then obtain b where b: "classify_expiry timestamp e None = Inr b"
    by (simp add: classify_expiry_def Let_def)
  have k: "k < ncols pg"
    using Cons.prems(1) by simp
  have "\<exists>d'. by_bucket_loop timestamp pg (enumerate (Suc k) es)
           (dict_set d b (dict_get d b 0 + sum_list (column pg k))) = Inr d'"
    using Cons.prems by (intro Cons.IH) auto
  then show ?case
    using b k by (simp add: col_sum_def)
qed

text \<open>On a well-formed store whose expiry labels are dates, the pipeline returns a result.\<close>

lemma compute_pnl_succeeds:
  assumes "interpolate_vega_grid interp1d surfaces s interp_method = Inr vg"
    and "grid_ok vg" and "ncols (grid_values vg) \<le> length (expiry_years vg)"
    and "\<And>e. e \<in> set (expiries vg) \<Longrightarrow> \<exists>dt. timestamp e = Inr dt"
  shows "\<exists>r. compute_pnl interp1d timestamp surfaces s vol_mode beta_params manual_params
               interp_method = Inr r"
proof -
  let ?bp = "Some (case beta_params of None \<Rightarrow> BetaParams_default | Some p \<Rightarrow> p)"
  let ?mp = "Some (case manual_params of None \<Rightarrow> ManualParams_default | Some p \<Rightarrow> p)"
  obtain vc vo where vc: "compute_vol_change_grid vg s vol_mode ?bp ?mp = Inr (vc, vo)"
    using vol_change_grid_succeeds[of vg s vol_mode ?bp ?mp] assms(2,3)
    by (auto simp: grid_ok_def)
  define pg where "pg = arr_add (arr_mul (grid_values vg) vc) (arr_mul (grid_values vg) vo)"
  have sh: "nrows pg = nrows (grid_values vg)" "ncols pg = ncols (grid_values vg)"
    by (simp_all add: pg_def arr_add_def arr_mul_def)
  obtain be where be: "by_expiry_loop pg (enumerate 0 (expiries vg)) [] = Inr be"
    using by_expiry_loop_succeeds[of 0 "expiries vg" pg "[]"] assms(2) sh
    by (auto simp: grid_ok_def)
  obtain bb where bb: "by_bucket_loop timestamp pg (enumerate 0 (expiries vg)) [] = Inr bb"
    using by_bucket_loop_succeeds[of 0 "expiries vg" pg timestamp "[]"] assms(2,4) sh
    by (auto simp: grid_ok_def)
  obtain bm where bm: "by_moneyness_loop pg (enumerate 0 (moneyness vg)) [] = Inr bm"
    using by_moneyness_loop_succeeds[of 0 "moneyness vg" pg "[]"] assms(2) sh
    by (auto simp: grid_ok_def)
  show ?thesis
    using assms(1) vc be bb bm unfolding compute_pnl_def Let_def pg_def
    by simp
qed

lemma example_interpolated:
  "interpolate_vega_grid linear_interp1d example_surfaces 0 ''linear'' = Inr (example_grid 0)"
  by code_simp

lemma example_grid_ok: "grid_ok (example_grid s) \<and> labels_distinct (example_grid s)"
  by (simp add: grid_ok_def labels_distinct_def example_grid_def example_values_def array_ok_def)

lemma example_surfaces_ok:
  "list_all (\<lambda>(k, g). grid_ok g \<and> labels_distinct g) example_surfaces"
  by (simp add: example_surfaces_def example_grid_ok)

text \<open>The example store at an unshifted spot, in manual mode: the pipeline returns a result.\<close>

theorem pnl_decomposition_witness:
  "list_all (\<lambda>(k, g). grid_ok g \<and> labels_distinct g) example_surfaces \<and>
   (\<exists>r. compute_pnl linear_interp1d example_timestamp example_surfaces 0 ''manual'' None
           (Some example_manual) ''linear'' = Inr r \<and>
        total_pnl r = arr_sum (pnl_grid r) \<and>
        sum_list (dict_values (pnl_by_expiry r)) = total_pnl r \<and>
        sum_list (dict_values (pnl_by_bucket r)) = total_pnl r \<and>
        sum_list (dict_values (pnl_by_moneyness r)) = total_pnl r)"
proof -
  have "\<exists>dt. example_timestamp e = Inr dt" if "e \<in> set (expiries (example_grid 0))" for e
    using that by (auto simp: example_grid_def example_timestamp_def)
  then obtain r where r: "compute_pnl linear_interp1d example_timestamp example_surfaces 0
      ''manual'' None (Some example_manual) ''linear'' = Inr r"
    using compute_pnl_succeeds[OF example_interpolated, of example_timestamp "''manual''" None
        "Some example_manual"] example_grid_ok[of 0]
    by (auto simp: example_grid_def example_values_def)
  show ?thesis
    using pnl_decomposition[OF example_surfaces_ok r] r example_surfaces_ok by blast
qed

lemma single_surface: "interpolate_vega_grid interp1d [(k, g)] s method = Inr g"
  by (simp add: interpolate_vega_grid_def dict_getitem_def)

lemma flat_manual_node: "manual_vol_change 1 y flat_manual = (1, 0)"
  by (simp add: manual_vol_change_def flat_manual_def)

lemma repeated_label_vol_changes:
  "compute_vol_change_grid repeated_label_grid s ''manual'' bp (Some flat_manual) =
     Inr (\<lparr>nrows = 1, ncols = 2, cells = [[1, 1]]\<rparr>, \<lparr>nrows = 1, ncols = 2, cells = [[0, 0]]\<rparr>)"
  by (simp add: compute_vol_change_grid_def repeated_label_grid_def getitem_def flat_manual_node
      upt_rec numeral_2_eq_2)

lemma repeated_label_pnl:
  "\<exists>r. compute_pnl interp1d example_timestamp [(0, repeated_label_grid)] s ''manual'' None
          (Some flat_manual) ''linear'' = Inr r \<and>
       total_pnl r = 300 \<and> pnl_by_expiry r = [(''2026-03-08'', 200)]"
  unfolding compute_pnl_def Let_def
  by (simp add: single_surface repeated_label_vol_changes)
     (simp add: repeated_label_grid_def arr_add_def arr_mul_def arr_sum_def col_sum_def
        column_def row_sum_def classify_expiry_def example_timestamp_def Let_def
        EXPIRY_BUCKET_THRESHOLDS_def example_ordinals dict_get_def)

text \<open>
  C4 as stated fails: for a grid whose two expiry columns carry the same label, the
  second column's P&L replaces the first under that label, so \<open>pnl_by_expiry\<close> sums to
  200 while \<open>total_pnl\<close> is 300.
\<close>

theorem pnl_by_expiry_sum_counterexample:
  "grid_ok repeated_label_grid \<and> distinct (moneyness repeated_label_grid) \<and>
   (\<exists>r. compute_pnl linear_interp1d example_timestamp [(0, repeated_label_grid)] 0 ''manual'' None
           (Some flat_manual) ''linear'' = Inr r \<and>
        sum_list (dict_values (pnl_by_expiry r)) \<noteq> total_pnl r)"
proof -
  obtain r where "compute_pnl linear_interp1d example_timestamp [(0, repeated_label_grid)] 0
      ''manual'' None (Some flat_manual) ''linear'' = Inr r"
    and "total_pnl r = 300" and "pnl_by_expiry r = [(''2026-03-08'', 200)]"
    using repeated_label_pnl[of linear_interp1d 0] by blast
  moreover have "grid_ok repeated_label_grid \<and> distinct (moneyness repeated_label_grid)"
    by (simp add: grid_ok_def repeated_label_grid_def array_ok_def)
  ultimately show ?thesis
    by (auto simp: dict_values_def)
qed

section \<open>Scenario matrix in manual mode\<close>

text \<open>
  The sweep builds each \<open>ManualParams\<close> from the override and from the \<open>skew_change\<close>
  and \<open>term_multiplier\<close> of the base parameters only; the \<open>volga_scale\<close> of the base
  parameters is never read.
\<close>

lemma manual_row_loop_ignores_volga_scale:
  "manual_row_loop interp1d timestamp surfaces sm (mp\<lparr>volga_scale := v\<rparr>) overrides row =
   manual_row_loop interp1d timestamp surfaces sm mp overrides row"
  by (induction overrides arbitrary: row) (simp_all cong: sum.case_cong)

lemma scenario_matrix_ignores_volga_scale:
  "compute_scenario_matrix interp1d timestamp surfaces spot_moves ''manual'' beta_params
     (Some (mp\<lparr>volga_scale := v\<rparr>)) vol_changes_override =
   compute_scenario_matrix interp1d timestamp surfaces spot_moves ''manual'' beta_params
     (Some mp) vol_changes_override"
  by (simp add: compute_scenario_matrix_def manual_row_loop_ignores_volga_scale)

lemma ln2_ge_half: "1 / 2 \<le> ln (2 :: real)"
proof -
  have "ln (1 / 2 :: real) \<le> 1 / 2 - 1"
    by (rule ln_le_minus_one) simp
  moreover have "ln (1 / 2 :: real) = - ln 2"
    by (simp add: ln_div)
  ultimately show ?thesis
    by simp
qed

lemma volga_factor_capped:
  "min ((ln (max 2 0.01 :: real))\<^sup>2 / (0.20\<^sup>2 * max (30 / 365.25) 0.01)) 10.0 = 10"
proof -
  have "(1 / 2)\<^sup>2 \<le> (ln (2 :: real))\<^sup>2"
    using ln2_ge_half by (intro power_mono) auto
  then have "10 * (0.20\<^sup>2 * (30 / 365.25)) \<le> (ln (2 :: real))\<^sup>2"
    by (simp add: power2_eq_square)
  then have "10 \<le> (ln (2 :: real))\<^sup>2 / (0.20\<^sup>2 * (30 / 365.25))"
    by (simp add: pos_le_divide_eq power2_eq_square)
  then show ?thesis
    by (simp add: max_def min_def)
qed

lemma deep_otm_node:
  "manual_vol_change 2 (30 / 365.25)
     \<lparr>atm_vol_change = 1, skew_change = 0, term_multiplier = 0, volga_scale = v\<rparr> = (1, 5 * v)"
  using volga_factor_capped by (simp add: manual_vol_change_def)

lemma deep_otm_vol_changes:
  "compute_vol_change_grid deep_otm_grid s ''manual'' bp
     (Some \<lparr>atm_vol_change = 1, skew_change = 0, term_multiplier = 0, volga_scale = v\<rparr>) =
     Inr (\<lparr>nrows = 1, ncols = 1, cells = [[1]]\<rparr>, \<lparr>nrows = 1, ncols = 1, cells = [[5 * v]]\<rparr>)"
  by (simp add: compute_vol_change_grid_def deep_otm_grid_def getitem_def
      deep_otm_node[simplified])

lemma deep_otm_total:
  "\<exists>r. compute_pnl interp1d example_timestamp [(0, deep_otm_grid)] s ''manual'' None
          (Some \<lparr>atm_vol_change = 1, skew_change = 0, term_multiplier = 0, volga_scale = v\<rparr>)
          ''linear'' = Inr r \<and>
       total_pnl r = 100 + 500 * v"
  unfolding compute_pnl_def Let_def
  by (simp add: single_surface deep_otm_vol_changes)
     (simp add: deep_otm_grid_def arr_add_def arr_mul_def arr_sum_def col_sum_def
        column_def row_sum_def classify_expiry_def example_timestamp_def Let_def
        EXPIRY_BUCKET_THRESHOLDS_def example_ordinals dict_get_def)

lemma default_column_tags:
  "map fmt_signed_0f default_vol_changes = [''-5'', ''-3'', ''-1'', ''+0'', ''+1'', ''+3'', ''+5'']"
  by code_simp

lemma fmt_one: "fmt_signed_0f 1 = ''+1''"
  by code_simp

text \<open>
  C7. Base parameters with \<open>volga_scale = 0.3\<close>, one spot move and the override 1, on a
  single cell of vega 100 whose volga factor is at the cap of 10: the matrix holds
  \<open>175 = 100 * (1 + 5 * 0.15)\<close> in the column \<open>vol_+1\<close>, the total P&L under the default
  \<open>volga_scale\<close>, whereas the total P&L under the base parameters with \<open>atm_vol_change\<close>
  set to the override is \<open>250 = 100 * (1 + 5 * 0.3)\<close>.
\<close>

theorem scenario_matrix_resets_volga_scale:
  "volga_scale base_manual = 0.3 \<and>
   compute_scenario_matrix linear_interp1d example_timestamp [(0, deep_otm_grid)] (Some [0])
     ''manual'' None (Some base_manual) (Some [1]) =
     Inr [[(''spot_move'', 0), (''vol_+1'', 175)]] \<and>
   (\<exists>r. compute_pnl linear_interp1d example_timestamp [(0, deep_otm_grid)] 0 ''manual'' None
          (Some (base_manual\<lparr>atm_vol_change := 1\<rparr>)) ''linear'' = Inr r \<and>
        total_pnl r = 250)"
proof -
  obtain r1 where r1: "compute_pnl linear_interp1d example_timestamp [(0, deep_otm_grid)] 0
      ''manual'' None
      (Some \<lparr>atm_vol_change = 1, skew_change = 0, term_multiplier = 0, volga_scale = 0.15\<rparr>)
      ''linear'' = Inr r1" and t1: "total_pnl r1 = 100 + 500 * 0.15"
    using deep_otm_total[of linear_interp1d 0 "0.15"] by blast
  obtain r2 where r2: "compute_pnl linear_interp1d example_timestamp [(0, deep_otm_grid)] 0
      ''manual'' None
      (Some \<lparr>atm_vol_change = 1, skew_change = 0, term_multiplier = 0, volga_scale = 0.3\<rparr>)
      ''linear'' = Inr r2" and t2: "total_pnl r2 = 100 + 500 * 0.3"
    using deep_otm_total[of linear_interp1d 0 "0.3"] by blast
  have m: "ManualParams_default\<lparr>atm_vol_change := 1, skew_change := skew_change base_manual,
             term_multiplier := term_multiplier base_manual\<rparr> =
           \<lparr>atm_vol_change = 1, skew_change = 0, term_multiplier = 0, volga_scale = 0.15\<rparr>"
    by (simp add: ManualParams_default_def base_manual_def)
  have b: "base_manual\<lparr>atm_vol_change := 1\<rparr> =
           \<lparr>atm_vol_change = 1, skew_change = 0, term_multiplier = 0, volga_scale = 0.3\<rparr>"
    by (simp add: base_manual_def)
  have "compute_scenario_matrix linear_interp1d example_timestamp [(0, deep_otm_grid)] (Some [0])
     ''manual'' None (Some base_manual) (Some [1]) =
     Inr [[(''spot_move'', 0), (''vol_+1'', 175)]]"
    using r1 t1 by (simp add: compute_scenario_matrix_def m fmt_one)
  moreover have "\<exists>r. compute_pnl linear_interp1d example_timestamp [(0, deep_otm_grid)] 0
          ''manual'' None (Some (base_manual\<lparr>atm_vol_change := 1\<rparr>)) ''linear'' = Inr r \<and>
        total_pnl r = 250"
    unfolding b using r2 t2 by auto
  ultimately show ?thesis
    by (simp add: base_manual_def)
qed

end
